theory Spec2Isabelle
  imports Complex_Main "HOL-Library.Word"
begin

unbundle bit_operations_syntax

section \<open>The MD5 digest used to name cache files\<close>

text \<open>
  \<^verbatim>\<open>get_cache_filename\<close> calls \<^verbatim>\<open>hashlib.md5(feed_url.encode()).hexdigest()\<close>.
  The digest is modelled after RFC 1321 on 32-bit words: padding to a multiple of
  64 bytes, 64 steps for each block, little-endian output, lower-case hexadecimal text.
  A \<open>string\<close> stands for the UTF-8 bytes of the Python text, so \<^verbatim>\<open>encode\<close> only
  changes the type of each byte.
\<close>

type_synonym u8 = "8 word"
type_synonym u32 = "32 word"
type_synonym md5_state = "u32 \<times> u32 \<times> u32 \<times> u32"

definition md5_S :: "nat list" where
  "md5_S = [7, 12, 17, 22, 7, 12, 17, 22, 7, 12, 17, 22, 7, 12, 17, 22,
            5, 9, 14, 20, 5, 9, 14, 20, 5, 9, 14, 20, 5, 9, 14, 20,
            4, 11, 16, 23, 4, 11, 16, 23, 4, 11, 16, 23, 4, 11, 16, 23,
            6, 10, 15, 21, 6, 10, 15, 21, 6, 10, 15, 21, 6, 10, 15, 21]"

definition md5_K :: "u32 list" where
  "md5_K = [0xd76aa478, 0xe8c7b756, 0x242070db, 0xc1bdceee, 0xf57c0faf, 0x4787c62a, 0xa8304613, 0xfd469501,
            0x698098d8, 0x8b44f7af, 0xffff5bb1, 0x895cd7be, 0x6b901122, 0xfd987193, 0xa679438e, 0x49b40821,
            0xf61e2562, 0xc040b340, 0x265e5a51, 0xe9b6c7aa, 0xd62f105d, 0x02441453, 0xd8a1e681, 0xe7d3fbc8,
            0x21e1cde6, 0xc33707d6, 0xf4d50d87, 0x455a14ed, 0xa9e3e905, 0xfcefa3f8, 0x676f02d9, 0x8d2a4c8a,
            0xfffa3942, 0x8771f681, 0x6d9d6122, 0xfde5380c, 0xa4beea44, 0x4bdecfa9, 0xf6bb4b60, 0xbebfbc70,
            0x289b7ec6, 0xeaa127fa, 0xd4ef3085, 0x04881d05, 0xd9d4d039, 0xe6db99e5, 0x1fa27cf8, 0xc4ac5665,
            0xf4292244, 0x432aff97, 0xab9423a7, 0xfc93a039, 0x655b59c3, 0x8f0ccc92, 0xffeff47d, 0x85845dd1,
            0x6fa87e4f, 0xfe2ce6e0, 0xa3014314, 0x4e0811a1, 0xf7537e82, 0xbd3af235, 0x2ad7d2bb, 0xeb86d391]"

definition leftrotate :: "u32 \<Rightarrow> nat \<Rightarrow> u32" where
  "leftrotate x c = (push_bit c x AND 0xffffffff) OR drop_bit (32 - c) x"

definition md5_step :: "u32 list \<Rightarrow> nat \<Rightarrow> md5_state \<Rightarrow> md5_state" where
  "md5_step M i st =
     (case st of (a, b, c, d) \<Rightarrow>
        let (f, g) =
              (if i < 16 then ((b AND c) OR (NOT b AND d), i)
               else if i < 32 then ((d AND b) OR (NOT d AND c), (5 * i + 1) mod 16)
               else if i < 48 then (b XOR c XOR d, (3 * i + 5) mod 16)
               else (c XOR (b OR NOT d), (7 * i) mod 16));
            f' = f + a + md5_K ! i + M ! g
        in (d, b + leftrotate f' (md5_S ! i), b, c))"

fun le_word :: "u8 list \<Rightarrow> u32" where
  "le_word [] = 0"
| "le_word (x # xs) = ucast x OR push_bit 8 (le_word xs)"

fun md5_blocks :: "u8 list \<Rightarrow> u8 list list" where
  "md5_blocks bs = (if bs = [] then [] else take 64 bs # md5_blocks (drop 64 bs))"

declare md5_blocks.simps [simp del]

fun block_words :: "u8 list \<Rightarrow> u32 list" where
  "block_words (b0 # b1 # b2 # b3 # bs) = le_word [b0, b1, b2, b3] # block_words bs"
| "block_words _ = []"

definition le_bytes4 :: "u32 \<Rightarrow> u8 list" where
  "le_bytes4 w = [ucast w, ucast (drop_bit 8 w), ucast (drop_bit 16 w), ucast (drop_bit 24 w)]"

definition le_bytes8 :: "64 word \<Rightarrow> u8 list" where
  "le_bytes8 w = [ucast w, ucast (drop_bit 8 w), ucast (drop_bit 16 w), ucast (drop_bit 24 w),
                  ucast (drop_bit 32 w), ucast (drop_bit 40 w), ucast (drop_bit 48 w), ucast (drop_bit 56 w)]"

definition md5_pad :: "u8 list \<Rightarrow> u8 list" where
  "md5_pad m = m @ [0x80] @ replicate ((119 - length m mod 64) mod 64) 0
                 @ le_bytes8 (word_of_nat (8 * length m))"

definition md5_init :: md5_state where
  "md5_init = (0x67452301, 0xefcdab89, 0x98badcfe, 0x10325476)"

definition md5_block :: "md5_state \<Rightarrow> u8 list \<Rightarrow> md5_state" where
  "md5_block st blk =
     (case st of (a0, b0, c0, d0) \<Rightarrow>
        case fold (md5_step (block_words blk)) [0..<64] st of (a, b, c, d) \<Rightarrow>
          (a0 + a, b0 + b, c0 + c, d0 + d))"

definition md5_digest :: "u8 list \<Rightarrow> u8 list" where
  "md5_digest m =
     (case fold (\<lambda>blk st. md5_block st blk) (md5_blocks (md5_pad m)) md5_init of
        (a, b, c, d) \<Rightarrow> concat (map le_bytes4 [a, b, c, d]))"

definition hex_digit :: "nat \<Rightarrow> char" where
  "hex_digit n = ''0123456789abcdef'' ! (n mod 16)"

definition hex_byte :: "u8 \<Rightarrow> string" where
  "hex_byte b = [hex_digit (unat b div 16), hex_digit (unat b mod 16)]"

definition hexdigest :: "u8 list \<Rightarrow> string" where
  "hexdigest bs = concat (map hex_byte bs)"

definition encode :: "string \<Rightarrow> u8 list" where
  "encode s = map (\<lambda>c. of_nat (of_char c)) s"

definition md5_hex :: "string \<Rightarrow> string" where
  "md5_hex s = hexdigest (md5_digest (encode s))"

section \<open>Paths\<close>

text \<open>
  \<^verbatim>\<open>os.path.join\<close> and \<^verbatim>\<open>os.path.dirname\<close> on POSIX paths: a join inserts one
  separator unless the first part is empty or ends with one, and an absolute second part
  replaces the first; the directory name is what precedes the last separator.
\<close>

type_synonym path = string

definition path_join :: "path \<Rightarrow> path \<Rightarrow> path" where
  "path_join a b =
     (if b \<noteq> [] \<and> hd b = CHR ''/'' then b
      else if a = [] \<or> last a = CHR ''/'' then a @ b
      else a @ ''/'' @ b)"

definition dirname :: "path \<Rightarrow> path" where
  "dirname p =
     (if CHR ''/'' \<in> set p
      then (let head = rev (dropWhile (\<lambda>c. c \<noteq> CHR ''/'') (rev p));
                stripped = rev (dropWhile (\<lambda>c. c = CHR ''/'') (rev head))
            in if stripped = [] then head else stripped)
      else [])"

section \<open>The JSON library\<close>

text \<open>
  The program parses text with \<^verbatim>\<open>json.load\<close> and \<^verbatim>\<open>response.json()\<close> and
  serialises with \<^verbatim>\<open>json.dump\<close>. Both belong to the Python library, so the program
  is modelled over any pair of such functions: \<open>loads\<close> returns \<open>None\<close> where the
  library raises its decode error, whose text is \<open>decode_error\<close>.
\<close>

record 'j json_lib =
  loads :: "string \<Rightarrow> 'j option"
  dumps :: "'j \<Rightarrow> string"
  decode_error :: "string \<Rightarrow> string"

subsection \<open>A concrete library for a fragment of JSON\<close>

text \<open>
  The fragment has \<^verbatim>\<open>null\<close>, the booleans, integers, strings with the escapes
  \<^verbatim>\<open>\"\<close>, \<^verbatim>\<open>\\\<close>, \<^verbatim>\<open>\/\<close>, \<^verbatim>\<open>\n\<close>, \<^verbatim>\<open>\r\<close> and \<^verbatim>\<open>\t\<close>, arrays and objects.
  The printer follows the defaults of \<^verbatim>\<open>json.dump\<close>: the separators are a comma
  followed by a space and a colon followed by a space. An object keeps the order in which
  its keys first appear and the last value given for a key, as a Python dictionary does.
  Numbers with a fraction or an exponent and the other escapes are outside the fragment,
  and the text of the decode error is reduced to one message.
\<close>

datatype json = JNull | JBool bool | JInt int | JStr string
  | JArr "json list" | JObj "(string \<times> json) list"

definition is_ws :: "char \<Rightarrow> bool" where
  "is_ws c = (c = CHR '' '' \<or> c = CHR 0x0A \<or> c = CHR 0x0D \<or> c = CHR 0x09)"

definition skip_ws :: "string \<Rightarrow> string" where
  "skip_ws s = dropWhile is_ws s"

definition is_digit :: "char \<Rightarrow> bool" where
  "is_digit c = (48 \<le> (of_char c :: nat) \<and> (of_char c :: nat) \<le> 57)"

definition digit_val :: "char \<Rightarrow> nat" where
  "digit_val c = of_char c - 48"

definition digit_char :: "nat \<Rightarrow> char" where
  "digit_char n = char_of (48 + n mod 10)"

fun show_nat :: "nat \<Rightarrow> string" where
  "show_nat n = (if n < 10 then [digit_char n] else show_nat (n div 10) @ [digit_char n])"

declare show_nat.simps [simp del]

definition show_int :: "int \<Rightarrow> string" where
  "show_int i = (if i < 0 then CHR ''-'' # show_nat (nat (- i)) else show_nat (nat i))"

fun parse_digits :: "string \<Rightarrow> nat \<Rightarrow> nat \<times> string" where
  "parse_digits [] acc = (acc, [])"
| "parse_digits (c # cs) acc =
     (if is_digit c then parse_digits cs (10 * acc + digit_val c) else (acc, c # cs))"

definition is_float_tail :: "string \<Rightarrow> bool" where
  "is_float_tail r = (r \<noteq> [] \<and> (hd r = CHR ''.'' \<or> hd r = CHR ''e'' \<or> hd r = CHR ''E''))"

definition parse_nat :: "string \<Rightarrow> (nat \<times> string) option" where
  "parse_nat s =
     (case s of
        [] \<Rightarrow> None
      | c # cs \<Rightarrow>
          if \<not> is_digit c then None
          else (let (n, r) = (if c = CHR ''0'' then (0, cs) else parse_digits s 0)
                in if is_float_tail r then None else Some (n, r)))"

definition parse_int :: "string \<Rightarrow> (json \<times> string) option" where
  "parse_int s =
     (case s of
        [] \<Rightarrow> None
      | c # cs \<Rightarrow>
          if c = CHR ''-''
          then map_option (\<lambda>(n, r). (JInt (- int n), r)) (parse_nat cs)
          else map_option (\<lambda>(n, r). (JInt (int n), r)) (parse_nat s))"

definition unescape :: "char \<Rightarrow> char option" where
  "unescape e =
     (if e = CHR 0x22 \<or> e = CHR 0x5C \<or> e = CHR ''/'' then Some e
      else if e = CHR ''n'' then Some (CHR 0x0A)
      else if e = CHR ''r'' then Some (CHR 0x0D)
      else if e = CHR ''t'' then Some (CHR 0x09)
      else None)"

fun parse_chars :: "string \<Rightarrow> string \<Rightarrow> (string \<times> string) option" where
  "parse_chars [] acc = None"
| "parse_chars [c] acc = (if c = CHR 0x22 then Some (rev acc, []) else None)"
| "parse_chars (c # e # cs) acc =
     (if c = CHR 0x22 then Some (rev acc, e # cs)
      else if c = CHR 0x5C
      then (case unescape e of None \<Rightarrow> None | Some x \<Rightarrow> parse_chars cs (x # acc))
      else if (of_char c :: nat) < 32 then None
      else parse_chars (e # cs) (c # acc))"

definition escape :: "char \<Rightarrow> string" where
  "escape c =
     (if c = CHR 0x22 then [CHR 0x5C, CHR 0x22]
      else if c = CHR 0x5C then [CHR 0x5C, CHR 0x5C]
      else if c = CHR 0x0A then [CHR 0x5C, CHR ''n'']
      else if c = CHR 0x0D then [CHR 0x5C, CHR ''r'']
      else if c = CHR 0x09 then [CHR 0x5C, CHR ''t'']
      else [c])"

definition quote :: "string \<Rightarrow> string" where
  "quote s = CHR 0x22 # concat (map escape s) @ [CHR 0x22]"

fun dict_set :: "(string \<times> 'v) list \<Rightarrow> string \<Rightarrow> 'v \<Rightarrow> (string \<times> 'v) list" where
  "dict_set [] k v = [(k, v)]"
| "dict_set ((k', v') # kvs) k v =
     (if k' = k then (k, v) # kvs else (k', v') # dict_set kvs k v)"

fun parse_value :: "nat \<Rightarrow> string \<Rightarrow> (json \<times> string) option"
  and parse_elements :: "nat \<Rightarrow> json list \<Rightarrow> string \<Rightarrow> (json list \<times> string) option"
  and parse_members :: "nat \<Rightarrow> (string \<times> json) list \<Rightarrow> string
                          \<Rightarrow> ((string \<times> json) list \<times> string) option" where
  "parse_value 0 s = None"
| "parse_value (Suc n) s =
     (case skip_ws s of
        [] \<Rightarrow> None
      | c # cs \<Rightarrow>
          if c = CHR ''[''
          then (if skip_ws cs \<noteq> [] \<and> hd (skip_ws cs) = CHR '']''
                then Some (JArr [], tl (skip_ws cs))
                else map_option (\<lambda>(xs, r). (JArr xs, r)) (parse_elements n [] cs))
          else if c = CHR ''{''
          then (if skip_ws cs \<noteq> [] \<and> hd (skip_ws cs) = CHR ''}''
                then Some (JObj [], tl (skip_ws cs))
                else map_option (\<lambda>(kvs, r). (JObj kvs, r)) (parse_members n [] cs))
          else if c = CHR 0x22
          then map_option (\<lambda>(x, r). (JStr x, r)) (parse_chars cs [])
          else if take 4 (c # cs) = ''null'' then Some (JNull, drop 3 cs)
          else if take 4 (c # cs) = ''true'' then Some (JBool True, drop 3 cs)
          else if take 5 (c # cs) = ''false'' then Some (JBool False, drop 4 cs)
          else parse_int (c # cs))"
| "parse_elements 0 acc s = None"
| "parse_elements (Suc n) acc s =
     (case parse_value n s of
        None \<Rightarrow> None
      | Some (v, r) \<Rightarrow>
          (case skip_ws r of
             [] \<Rightarrow> None
           | c # r' \<Rightarrow>
               if c = CHR '','' then parse_elements n (acc @ [v]) r'
               else if c = CHR '']'' then Some (acc @ [v], r')
               else None))"
| "parse_members 0 acc s = None"
| "parse_members (Suc n) acc s =
     (case skip_ws s of
        [] \<Rightarrow> None
      | q # s1 \<Rightarrow>
          if q \<noteq> CHR 0x22 then None
          else (case parse_chars s1 [] of
                  None \<Rightarrow> None
                | Some (k, s2) \<Rightarrow>
                    (case skip_ws s2 of
                       [] \<Rightarrow> None
                     | c # s3 \<Rightarrow>
                         if c \<noteq> CHR '':'' then None
                         else (case parse_value n s3 of
                                 None \<Rightarrow> None
                               | Some (v, r) \<Rightarrow>
                                   (case skip_ws r of
                                      [] \<Rightarrow> None
                                    | d # r' \<Rightarrow>
                                        if d = CHR '','' then parse_members n (dict_set acc k v) r'
                                        else if d = CHR ''}'' then Some (dict_set acc k v, r')
                                        else None)))))"

definition join_commas :: "string list \<Rightarrow> string" where
  "join_commas xs = (case xs of [] \<Rightarrow> [] | y # ys \<Rightarrow> y @ concat (map (\<lambda>z. '', '' @ z) ys))"

fun json_dumps :: "json \<Rightarrow> string" where
  "json_dumps JNull = ''null''"
| "json_dumps (JBool b) = (if b then ''true'' else ''false'')"
| "json_dumps (JInt i) = show_int i"
| "json_dumps (JStr s) = quote s"
| "json_dumps (JArr xs) = ''['' @ join_commas (map json_dumps xs) @ '']''"
| "json_dumps (JObj kvs) =
     ''{'' @ join_commas (map (\<lambda>(k, v). quote k @ '': '' @ json_dumps v) kvs) @ ''}''"

definition json_loads :: "string \<Rightarrow> json option" where
  "json_loads s =
     (case parse_value (2 * length s + 1) s of
        None \<Rightarrow> None
      | Some (v, r) \<Rightarrow> if skip_ws r = [] then Some v else None)"

definition py_json :: "json json_lib" where
  "py_json = \<lparr> loads = json_loads, dumps = json_dumps,
               decode_error = (\<lambda>s. ''Expecting value: line 1 column 1 (char 0)'') \<rparr>"

section \<open>The file system, the clock and the network\<close>

text \<open>
  A file-system entry is a directory or a regular file with its text and its read and
  write permissions; both carry a modification time. Time stamps are real numbers: Python
  floats subtract exactly whenever the two times are within a factor of two of each other,
  which holds for every age near the one-hour threshold. File contents are texts, so bytes
  that do not decode are outside the model. The world also records, in order, the
  operations that opened a file, created a directory or contacted the provider.
\<close>

datatype node = Dir real | File real string bool bool

fun mtime :: "node \<Rightarrow> real" where
  "mtime (Dir t) = t"
| "mtime (File t c r w) = t"

datatype event = Makedirs path | OpenRead path | OpenWrite path | HttpGet string

record world =
  clock :: real
  fs :: "path \<rightharpoonup> node"
  trace :: "event list"

datatype os_error = FileNotFoundError path | IsADirectoryError path
  | NotADirectoryError path | PermissionError path

definition path_exists :: "world \<Rightarrow> path \<Rightarrow> bool" where
  "path_exists w p = (fs w p \<noteq> None)"

text \<open>
  \<^verbatim>\<open>os.makedirs\<close> is taken to succeed: permissions of directories are not part of
  the world, so the working directory always allows the cache directory to be created.
  The source calls it outside any \<^verbatim>\<open>try\<close> block.
\<close>

definition makedirs :: "world \<Rightarrow> path \<Rightarrow> world" where
  "makedirs w p = w\<lparr> fs := (fs w)(p \<mapsto> Dir (clock w)), trace := trace w @ [Makedirs p] \<rparr>"

text \<open>
  \<^verbatim>\<open>open(p, 'r')\<close> followed by reading the whole file: the errors are all subclasses
  of \<^verbatim>\<open>OSError\<close>, which \<^verbatim>\<open>IOError\<close> names too.
\<close>

definition open_read :: "world \<Rightarrow> path \<Rightarrow> (os_error + string) \<times> world" where
  "open_read w p =
     (let w' = w\<lparr> trace := trace w @ [OpenRead p] \<rparr>
      in case fs w p of
           None \<Rightarrow> (Inl (FileNotFoundError p), w')
         | Some (Dir t) \<Rightarrow> (Inl (IsADirectoryError p), w')
         | Some (File t c r wr) \<Rightarrow>
             if r then (Inr c, w') else (Inl (PermissionError p), w'))"

text \<open>
  \<^verbatim>\<open>open(p, 'w')\<close> followed by writing \<open>txt\<close>: the parent must be a directory
  (the empty parent is the working directory), an existing file must be writable and
  keeps its permissions, a new file is readable and writable. A directory has no
  permissions here, so a new file can be created in every directory.
\<close>

definition parent_check :: "world \<Rightarrow> path \<Rightarrow> os_error option" where
  "parent_check w p =
     (if dirname p = [] then None
      else case fs w (dirname p) of
             None \<Rightarrow> Some (FileNotFoundError p)
           | Some (Dir t) \<Rightarrow> None
           | Some (File t c r wr) \<Rightarrow> Some (NotADirectoryError p))"

definition open_write :: "world \<Rightarrow> path \<Rightarrow> string \<Rightarrow> os_error option \<times> world" where
  "open_write w p txt =
     (let w' = w\<lparr> trace := trace w @ [OpenWrite p] \<rparr>
      in case parent_check w p of
           Some e \<Rightarrow> (Some e, w')
         | None \<Rightarrow>
             (case fs w p of
                None \<Rightarrow> (None, w'\<lparr> fs := (fs w)(p \<mapsto> File (clock w) txt True True) \<rparr>)
              | Some (Dir t) \<Rightarrow> (Some (IsADirectoryError p), w')
              | Some (File t c r wr) \<Rightarrow>
                  if wr then (None, w'\<lparr> fs := (fs w)(p \<mapsto> File (clock w) txt r wr) \<rparr>)
                  else (Some (PermissionError p), w')))"

text \<open>
  What \<^verbatim>\<open>requests.get(feed_url, timeout=30)\<close> meets: a response with its status code,
  reason phrase and body, or one of the exceptions of the library, given with its text.
  The call takes \<open>latency\<close> seconds.
\<close>

datatype net_reply = Response nat string string | Timeout string | ConnectionError string

record net =
  latency :: real
  reply :: net_reply

text \<open>
  \<^verbatim>\<open>Response.raise_for_status\<close>: an \<^verbatim>\<open>HTTPError\<close> for a status from 400 to 599, with
  the text the library builds.
\<close>

definition raise_for_status :: "nat \<Rightarrow> string \<Rightarrow> string \<Rightarrow> string option" where
  "raise_for_status status reason url =
     (if 400 \<le> status \<and> status < 500
      then Some (show_nat status @ '' Client Error: '' @ reason @ '' for url: '' @ url)
      else if 500 \<le> status \<and> status < 600
      then Some (show_nat status @ '' Server Error: '' @ reason @ '' for url: '' @ url)
      else None)"

section \<open>The program\<close>

definition CACHE_DIR :: path where
  "CACHE_DIR = ''cache''"

definition CACHE_DURATION :: real where
  "CACHE_DURATION = 3600"

definition ensure_cache_dir :: "world \<Rightarrow> world" where
  "ensure_cache_dir w = (if \<not> path_exists w CACHE_DIR then makedirs w CACHE_DIR else w)"

definition get_cache_filename :: "string \<Rightarrow> path" where
  "get_cache_filename feed_url =
     (let url_hash = md5_hex feed_url
      in path_join CACHE_DIR (''earthquake_data_'' @ url_hash @ ''.json''))"

definition is_cache_valid :: "world \<Rightarrow> path \<Rightarrow> bool" where
  "is_cache_valid w cache_file =
     (case fs w cache_file of
        None \<Rightarrow> False
      | Some n \<Rightarrow> (let file_age = clock w - mtime n in file_age < CACHE_DURATION))"

definition feed_urls :: "(string \<times> string) list" where
  "feed_urls =
    [(''significant_hour'', ''https://earthquake.usgs.gov/earthquakes/feed/v1.0/summary/significant_hour.geojson''),
     (''significant_day'', ''https://earthquake.usgs.gov/earthquakes/feed/v1.0/summary/significant_day.geojson''),
     (''significant_week'', ''https://earthquake.usgs.gov/earthquakes/feed/v1.0/summary/significant_week.geojson''),
     (''significant_month'', ''https://earthquake.usgs.gov/earthquakes/feed/v1.0/summary/significant_month.geojson''),
     (''4.5_hour'', ''https://earthquake.usgs.gov/earthquakes/feed/v1.0/summary/4.5_hour.geojson''),
     (''4.5_day'', ''https://earthquake.usgs.gov/earthquakes/feed/v1.0/summary/4.5_day.geojson''),
     (''4.5_week'', ''https://earthquake.usgs.gov/earthquakes/feed/v1.0/summary/4.5_week.geojson''),
     (''4.5_month'', ''https://earthquake.usgs.gov/earthquakes/feed/v1.0/summary/4.5_month.geojson''),
     (''2.5_hour'', ''https://earthquake.usgs.gov/earthquakes/feed/v1.0/summary/2.5_hour.geojson''),
     (''2.5_day'', ''https://earthquake.usgs.gov/earthquakes/feed/v1.0/summary/2.5_day.geojson''),
     (''2.5_week'', ''https://earthquake.usgs.gov/earthquakes/feed/v1.0/summary/2.5_week.geojson''),
     (''2.5_month'', ''https://earthquake.usgs.gov/earthquakes/feed/v1.0/summary/2.5_month.geojson''),
     (''1.0_hour'', ''https://earthquake.usgs.gov/earthquakes/feed/v1.0/summary/1.0_hour.geojson''),
     (''1.0_day'', ''https://earthquake.usgs.gov/earthquakes/feed/v1.0/summary/1.0_day.geojson''),
     (''1.0_week'', ''https://earthquake.usgs.gov/earthquakes/feed/v1.0/summary/1.0_week.geojson''),
     (''1.0_month'', ''https://earthquake.usgs.gov/earthquakes/feed/v1.0/summary/1.0_month.geojson''),
     (''all_hour'', ''https://earthquake.usgs.gov/earthquakes/feed/v1.0/summary/all_hour.geojson''),
     (''all_day'', ''https://earthquake.usgs.gov/earthquakes/feed/v1.0/summary/all_day.geojson''),
     (''all_week'', ''https://earthquake.usgs.gov/earthquakes/feed/v1.0/summary/all_week.geojson''),
     (''all_month'', ''https://earthquake.usgs.gov/earthquakes/feed/v1.0/summary/all_month.geojson'')]"

text \<open>
  The value a call hands back: the parsed data, or the dictionary with the single key
  \<^verbatim>\<open>error\<close>. A call that lets an exception escape is \<open>Raised\<close>.
\<close>

datatype 'j reply = Payload 'j | ErrorObj string

datatype 'j outcome = Returned "'j reply" | Raised os_error

text \<open>
  The first \<^verbatim>\<open>try\<close> block: \<^verbatim>\<open>IOError\<close> and \<^verbatim>\<open>json.JSONDecodeError\<close> are caught and
  the call goes on to the provider. The handler names no other exception. What else
  \<^verbatim>\<open>json.load\<close> can raise (\<^verbatim>\<open>UnicodeDecodeError\<close> for bytes that are not text,
  \<^verbatim>\<open>RecursionError\<close> for very deep nesting) is outside this model, in which the content
  of a file is a text and parsing a text either gives data or the decode error.
\<close>

definition read_cache :: "'j json_lib \<Rightarrow> world \<Rightarrow> path \<Rightarrow> 'j option \<times> world" where
  "read_cache J w cache_file =
     (case open_read w cache_file of
        (Inl e, w') \<Rightarrow> (None, w')
      | (Inr txt, w') \<Rightarrow> (loads J txt, w'))"

text \<open>
  The second \<^verbatim>\<open>try\<close> block. Every exception of the \<^verbatim>\<open>requests\<close> library, the decode
  error of \<^verbatim>\<open>response.json()\<close> among them, is a \<^verbatim>\<open>RequestException\<close> and becomes an
  error dictionary; an \<^verbatim>\<open>OSError\<close> from writing the cache file is not one and escapes.
  What else \<^verbatim>\<open>response.json()\<close> can raise (\<^verbatim>\<open>RecursionError\<close>, the \<^verbatim>\<open>ValueError\<close>
  of an integer with too many digits) is outside this model.
\<close>

definition fetch_failed :: "string \<Rightarrow> 'j reply" where
  "fetch_failed details = ErrorObj (''Failed to fetch earthquake data: '' @ details)"

text \<open>
  The three library calls of the block, \<^verbatim>\<open>requests.get\<close>, \<^verbatim>\<open>raise_for_status\<close> and
  \<^verbatim>\<open>response.json()\<close>: the parsed body, or the text of the exception raised.
\<close>

definition http_get_json :: "'j json_lib \<Rightarrow> net \<Rightarrow> string \<Rightarrow> string + 'j" where
  "http_get_json J n feed_url =
     (case reply n of
        Timeout msg \<Rightarrow> Inl msg
      | ConnectionError msg \<Rightarrow> Inl msg
      | Response status reason body \<Rightarrow>
          (case raise_for_status status reason feed_url of
             Some msg \<Rightarrow> Inl msg
           | None \<Rightarrow>
               (case loads J body of
                  None \<Rightarrow> Inl (decode_error J body)
                | Some data \<Rightarrow> Inr data)))"

definition fetch_fresh :: "'j json_lib \<Rightarrow> net \<Rightarrow> world \<Rightarrow> string \<Rightarrow> path \<Rightarrow> 'j outcome \<times> world" where
  "fetch_fresh J n w feed_url cache_file =
     (let w1 = w\<lparr> clock := clock w + latency n, trace := trace w @ [HttpGet feed_url] \<rparr>
      in case http_get_json J n feed_url of
           Inl msg \<Rightarrow> (Returned (fetch_failed msg), w1)
         | Inr data \<Rightarrow>
             (case open_write w1 cache_file (dumps J data) of
                (Some e, w2) \<Rightarrow> (Raised e, w2)
              | (None, w2) \<Rightarrow> (Returned (Payload data), w2)))"

definition fetch_earthquake_data :: "'j json_lib \<Rightarrow> net \<Rightarrow> world \<Rightarrow> string \<Rightarrow> 'j outcome \<times> world" where
  "fetch_earthquake_data J n w feed_type =
     (let w1 = ensure_cache_dir w
      in case map_of feed_urls feed_type of
           None \<Rightarrow> (Returned (ErrorObj (''Invalid feed type: '' @ feed_type)), w1)
         | Some feed_url \<Rightarrow>
             (let cache_file = get_cache_filename feed_url
              in case (if is_cache_valid w1 cache_file then read_cache J w1 cache_file
                       else (None, w1)) of
                   (Some data, w2) \<Rightarrow> (Returned (Payload data), w2)
                 | (None, w2) \<Rightarrow> fetch_fresh J n w2 feed_url cache_file))"

definition get_available_feeds :: "string list" where
  "get_available_feeds =
    [''significant_hour'', ''significant_day'', ''significant_week'', ''significant_month'',
     ''4.5_hour'', ''4.5_day'', ''4.5_week'', ''4.5_month'',
     ''2.5_hour'', ''2.5_day'', ''2.5_week'', ''2.5_month'',
     ''1.0_hour'', ''1.0_day'', ''1.0_week'', ''1.0_month'',
     ''all_hour'', ''all_day'', ''all_week'', ''all_month'']"

text \<open>
  When \<^verbatim>\<open>open(p, 'w')\<close> succeeds: the parent is a directory and \<open>p\<close> is absent or a
  writable regular file. The permissions the file has after the write are \<open>perms_after\<close>.
\<close>

definition writable :: "world \<Rightarrow> path \<Rightarrow> bool" where
  "writable w p =
     (parent_check w p = None
      \<and> (case fs w p of None \<Rightarrow> True | Some (Dir t) \<Rightarrow> False | Some (File t c r wr) \<Rightarrow> wr))"

definition perms_after :: "world \<Rightarrow> path \<Rightarrow> bool \<times> bool" where
  "perms_after w p = (case fs w p of Some (File t c r wr) \<Rightarrow> (r, wr) | _ \<Rightarrow> (True, True))"

text \<open>The events a call added to the trace of the world it started from.\<close>

definition new_events :: "world \<Rightarrow> world \<Rightarrow> event list" where
  "new_events w w' = drop (length (trace w)) (trace w')"

text \<open>The world in which the provider is contacted, after the cache has been looked at.\<close>

definition after_lookup :: "world \<Rightarrow> path \<Rightarrow> world" where
  "after_lookup w p =
     (let w1 = ensure_cache_dir w
      in if is_cache_valid w1 p then w1\<lparr> trace := trace w1 @ [OpenRead p] \<rparr> else w1)"

definition cache_hit :: "'j json_lib \<Rightarrow> world \<Rightarrow> path \<Rightarrow> 'j option" where
  "cache_hit J w p =
     (let w1 = ensure_cache_dir w
      in if is_cache_valid w1 p then fst (read_cache J w1 p) else None)"

subsection \<open>Calling again\<close>


subsection \<open>Scenarios\<close>

text \<open>
  Concrete inputs used to run the model: the \<^verbatim>\<open>all_day\<close> feed, a provider that answers
  with a small JSON text, one that times out, and worlds in which the cache directory is
  missing, empty, holds a truncated cache file that is still fresh (writable or
  read-only), or holds an expired cache file that is read-only.
\<close>

definition all_day_url :: string where
  "all_day_url = ''https://earthquake.usgs.gov/earthquakes/feed/v1.0/summary/all_day.geojson''"

definition all_day_file :: path where
  "all_day_file = get_cache_filename all_day_url"

definition provider_ok :: net where
  "provider_ok = \<lparr> latency = 2, reply = Response 200 ''OK'' ''[1,2]'' \<rparr>"

definition provider_timeout :: net where
  "provider_timeout = \<lparr> latency = 30, reply = Timeout ''Read timed out.'' \<rparr>"

definition world_no_dir :: world where
  "world_no_dir = \<lparr> clock = 100, fs = Map.empty, trace = [] \<rparr>"

definition world_empty_dir :: world where
  "world_empty_dir = \<lparr> clock = 100, fs = [CACHE_DIR \<mapsto> Dir 50], trace = [] \<rparr>"

definition world_truncated :: world where
  \<open>world_truncated =
     \<lparr> clock = 100,
       fs = [CACHE_DIR \<mapsto> Dir 50, all_day_file \<mapsto> File 90 ''{"type": "Featur'' True True],
       trace = [] \<rparr>\<close>

definition world_truncated_read_only :: world where
  \<open>world_truncated_read_only =
     \<lparr> clock = 100,
       fs = [CACHE_DIR \<mapsto> Dir 50, all_day_file \<mapsto> File 90 ''{"type": "Featur'' True False],
       trace = [] \<rparr>\<close>

definition world_read_only :: world where
  "world_read_only =
     \<lparr> clock = 5000,
       fs = [CACHE_DIR \<mapsto> Dir 50, all_day_file \<mapsto> File 90 ''[]'' True False],
       trace = [] \<rparr>"

section \<open>Facts about the digest and the cache path\<close>

lemma hex_digit_in: "hex_digit n \<in> set ''0123456789abcdef''"
proof -
  have "n mod 16 < length ''0123456789abcdef''" by simp
  then show ?thesis unfolding hex_digit_def by (rule nth_mem)
qed

lemma hexdigest_length: "length (hexdigest bs) = 2 * length bs"
  by (induction bs) (simp_all add: hexdigest_def hex_byte_def)

lemma hexdigest_chars: "set (hexdigest bs) \<subseteq> set ''0123456789abcdef''"
proof -
  have "set (hex_byte b) \<subseteq> set ''0123456789abcdef''" for b
    using hex_digit_in [of "unat b div 16"] hex_digit_in [of "unat b mod 16"]
    by (simp add: hex_byte_def)
  then show ?thesis
    unfolding hexdigest_def by (induction bs) auto
qed

lemma md5_digest_length: "length (md5_digest m) = 16"
  by (simp add: md5_digest_def le_bytes4_def split: prod.splits)

lemma md5_hex_length: "length (md5_hex s) = 32"
  by (simp add: md5_hex_def hexdigest_length md5_digest_length)

lemma md5_hex_chars: "set (md5_hex s) \<subseteq> set ''0123456789abcdef''"
  by (simp only: md5_hex_def hexdigest_chars)

lemma md5_hex_no_slash: "CHR ''/'' \<notin> set (md5_hex s)"
  using md5_hex_chars [of s] by auto

lemma get_cache_filename_eq:
  "get_cache_filename u = ''cache/earthquake_data_'' @ md5_hex u @ ''.json''"
  by (simp add: get_cache_filename_def path_join_def CACHE_DIR_def)

lemma dropWhile_slash_hex:
  "CHR ''/'' \<notin> set h \<Longrightarrow> dropWhile (\<lambda>c. c \<noteq> CHR ''/'') (rev h @ r) = dropWhile (\<lambda>c. c \<noteq> CHR ''/'') r"
  by (rule dropWhile_append2) auto

lemma dirname_cache_filename: "dirname (get_cache_filename u) = CACHE_DIR"
  using dropWhile_slash_hex [OF md5_hex_no_slash, of u "rev ''cache/earthquake_data_''"]
  by (simp add: get_cache_filename_eq dirname_def CACHE_DIR_def Let_def)

lemma cache_filename_not_dir: "get_cache_filename u \<noteq> CACHE_DIR"
  by (simp add: get_cache_filename_eq CACHE_DIR_def)

section \<open>Validity of a cache entry\<close>

text \<open>
  C1. \<^verbatim>\<open>is_cache_valid\<close> holds exactly when the path exists and its age, the current
  time minus its modification time, is strictly below 3600 seconds, for every path and
  every current time; an entry modified exactly 3600 seconds ago is expired.
\<close>

theorem is_cache_valid_iff:
  "(is_cache_valid w p \<longleftrightarrow> (\<exists>n. fs w p = Some n \<and> clock w - mtime n < 3600))
   \<and> (\<forall>n. fs w p = Some n \<and> mtime n = clock w - 3600 \<longrightarrow> \<not> is_cache_valid w p)"
  by (auto simp: is_cache_valid_def CACHE_DURATION_def Let_def split: option.splits)

theorem is_cache_valid_iff_witness:
  "is_cache_valid \<lparr> clock = 4599, fs = [''cache/a.json'' \<mapsto> File 1000 ''[]'' True True], trace = [] \<rparr>
     ''cache/a.json''
   \<and> \<not> is_cache_valid \<lparr> clock = 4600, fs = [''cache/a.json'' \<mapsto> File 1000 ''[]'' True True], trace = [] \<rparr>
     ''cache/a.json''
   \<and> \<not> is_cache_valid \<lparr> clock = 4599, fs = Map.empty, trace = [] \<rparr> ''cache/a.json''"
  using is_cache_valid_iff
    [of "\<lparr> clock = 4599, fs = [''cache/a.json'' \<mapsto> File 1000 ''[]'' True True], trace = [] \<rparr>"
        "''cache/a.json''"]
    is_cache_valid_iff
    [of "\<lparr> clock = 4600, fs = [''cache/a.json'' \<mapsto> File 1000 ''[]'' True True], trace = [] \<rparr>"
        "''cache/a.json''"]
    is_cache_valid_iff [of "\<lparr> clock = 4599, fs = Map.empty, trace = [] \<rparr>" "''cache/a.json''"]
  by simp

section \<open>The cache file name\<close>

text \<open>
  C8. The cache file name is a function of the URL alone: \<^verbatim>\<open>get_cache_filename\<close> takes
  no other argument, neither the clock nor the file system. For every URL it is the cache
  directory, a separator, \<^verbatim>\<open>earthquake_data_\<close>, the 32 lower-case hexadecimal digits of
  the MD5 digest of the URL, and \<^verbatim>\<open>.json\<close>; so it has 59 characters, all of them
  letters, digits, an underscore, a dot or the one separator after the directory.
\<close>

theorem get_cache_filename_deterministic:
  "get_cache_filename u = CACHE_DIR @ ''/earthquake_data_'' @ md5_hex u @ ''.json''
   \<and> length (md5_hex u) = 32
   \<and> set (md5_hex u) \<subseteq> set ''0123456789abcdef''
   \<and> length (get_cache_filename u) = 59
   \<and> set (get_cache_filename u) \<subseteq> set ''abcdefghijklmnopqrstuvwxyz0123456789_./''
   \<and> dirname (get_cache_filename u) = CACHE_DIR"
proof -
  have name: "get_cache_filename u = CACHE_DIR @ ''/earthquake_data_'' @ md5_hex u @ ''.json''"
    by (simp add: get_cache_filename_eq CACHE_DIR_def)
  have len: "length (get_cache_filename u) = 59"
    by (simp add: get_cache_filename_eq md5_hex_length)
  have "set ''0123456789abcdef'' \<subseteq> set ''abcdefghijklmnopqrstuvwxyz0123456789_./''"
    by simp
  then have hex: "set (md5_hex u) \<subseteq> set ''abcdefghijklmnopqrstuvwxyz0123456789_./''"
    using md5_hex_chars [of u] by (rule order_trans [rotated])
  have "set ''cache/earthquake_data_'' \<subseteq> set ''abcdefghijklmnopqrstuvwxyz0123456789_./''"
    and "set ''.json'' \<subseteq> set ''abcdefghijklmnopqrstuvwxyz0123456789_./''"
    by simp_all
  with hex have safe: "set (get_cache_filename u) \<subseteq> set ''abcdefghijklmnopqrstuvwxyz0123456789_./''"
    unfolding get_cache_filename_eq set_append by blast
  from name md5_hex_length [of u] md5_hex_chars [of u] len safe dirname_cache_filename [of u]
  show ?thesis by blast
qed

section \<open>How a call runs\<close>

lemma ensure_cache_dir_clock: "clock (ensure_cache_dir w) = clock w"
  by (simp add: ensure_cache_dir_def makedirs_def)

lemma ensure_cache_dir_fs:
  "fs (ensure_cache_dir w) = (if path_exists w CACHE_DIR then fs w else (fs w)(CACHE_DIR \<mapsto> Dir (clock w)))"
  by (simp add: ensure_cache_dir_def makedirs_def)

lemma ensure_cache_dir_trace:
  "trace (ensure_cache_dir w) = trace w @ (if path_exists w CACHE_DIR then [] else [Makedirs CACHE_DIR])"
  by (simp add: ensure_cache_dir_def makedirs_def)


lemma ensure_cache_dir_other: "q \<noteq> CACHE_DIR \<Longrightarrow> fs (ensure_cache_dir w) q = fs w q"
  by (simp add: ensure_cache_dir_fs)

lemma read_cache_world: "snd (read_cache J w p) = w\<lparr> trace := trace w @ [OpenRead p] \<rparr>"
  by (simp add: read_cache_def open_read_def Let_def split: option.splits node.splits)

lemma read_cache_value:
  "fst (read_cache J w p) =
     (case fs w p of
        None \<Rightarrow> None
      | Some (Dir t) \<Rightarrow> None
      | Some (File t c r wr) \<Rightarrow> if r then loads J c else None)"
  by (simp add: read_cache_def open_read_def Let_def split: option.splits node.splits)

lemma fetch_invalid:
  "map_of feed_urls ft = None \<Longrightarrow>
   fetch_earthquake_data J n w ft =
     (Returned (ErrorObj (''Invalid feed type: '' @ ft)), ensure_cache_dir w)"
  by (simp add: fetch_earthquake_data_def)

lemma fetch_valid:
  "map_of feed_urls ft = Some url \<Longrightarrow>
   fetch_earthquake_data J n w ft =
     (if is_cache_valid (ensure_cache_dir w) (get_cache_filename url)
      then (case fst (read_cache J (ensure_cache_dir w) (get_cache_filename url)) of
              Some d \<Rightarrow> (Returned (Payload d), snd (read_cache J (ensure_cache_dir w) (get_cache_filename url)))
            | None \<Rightarrow> fetch_fresh J n (snd (read_cache J (ensure_cache_dir w) (get_cache_filename url)))
                        url (get_cache_filename url))
      else fetch_fresh J n (ensure_cache_dir w) url (get_cache_filename url))"
  by (simp add: fetch_earthquake_data_def Let_def split: prod.splits option.splits)

lemma fetch_fresh_failure:
  "http_get_json J n url = Inl msg \<Longrightarrow>
   fetch_fresh J n w url p =
     (Returned (fetch_failed msg), w\<lparr> clock := clock w + latency n, trace := trace w @ [HttpGet url] \<rparr>)"
  by (simp add: fetch_fresh_def Let_def)

lemma fetch_fresh_success:
  "http_get_json J n url = Inr d \<Longrightarrow>
   fetch_fresh J n w url p =
     (case open_write (w\<lparr> clock := clock w + latency n, trace := trace w @ [HttpGet url] \<rparr>) p (dumps J d) of
        (Some e, w2) \<Rightarrow> (Raised e, w2)
      | (None, w2) \<Rightarrow> (Returned (Payload d), w2))"
  by (simp add: fetch_fresh_def Let_def)

lemma fetch_fresh_not_invalid:
  "fst (fetch_fresh J n w url p) \<noteq> Returned (ErrorObj (''Invalid feed type: '' @ x))"
  by (cases "http_get_json J n url")
     (auto simp: fetch_fresh_failure fetch_fresh_success fetch_failed_def split: prod.splits option.splits)

lemma fetch_valid_not_invalid:
  "map_of feed_urls ft = Some url \<Longrightarrow>
   fst (fetch_earthquake_data J n w ft) \<noteq> Returned (ErrorObj (''Invalid feed type: '' @ x))"
  using fetch_fresh_not_invalid
          [of J n "snd (read_cache J (ensure_cache_dir w) (get_cache_filename url))" url
              "get_cache_filename url" x]
        fetch_fresh_not_invalid [of J n "ensure_cache_dir w" url "get_cache_filename url" x]
  by (auto simp: fetch_valid split: option.splits)

section \<open>The list of feeds\<close>

text \<open>
  C7. \<^verbatim>\<open>get_available_feeds\<close> is one fixed list: the 20 keys of the catalog in the order
  of the table, without repetition. Every identifier of the list is a key of the catalog,
  so a call of \<^verbatim>\<open>fetch_earthquake_data\<close> on it never takes the branch that answers
  with the invalid-feed-type error, whatever the library, the network and the world.
\<close>

theorem get_available_feeds_catalog:
  "get_available_feeds = map fst feed_urls
   \<and> length get_available_feeds = 20
   \<and> distinct get_available_feeds
   \<and> (\<forall>ft \<in> set get_available_feeds.
         map_of feed_urls ft \<noteq> None
         \<and> (\<forall>(J :: 'j json_lib) n w.
               fst (fetch_earthquake_data J n w ft) \<noteq> Returned (ErrorObj (''Invalid feed type: '' @ ft))))"
proof -
  have eq: "get_available_feeds = map fst feed_urls"
    by (simp add: get_available_feeds_def feed_urls_def)
  have len: "length get_available_feeds = 20"
    by (simp add: get_available_feeds_def)
  have dist: "distinct get_available_feeds"
    by (simp add: get_available_feeds_def)
  have "map_of feed_urls ft \<noteq> None
        \<and> (\<forall>(J :: 'j json_lib) n w.
              fst (fetch_earthquake_data J n w ft) \<noteq> Returned (ErrorObj (''Invalid feed type: '' @ ft)))"
    if "ft \<in> set get_available_feeds" for ft
  proof -
    from that have "ft \<in> fst ` set feed_urls" by (simp add: eq)
    then have "map_of feed_urls ft \<noteq> None"
      by (simp add: map_of_eq_None_iff)
    then obtain url where "map_of feed_urls ft = Some url"
      by blast
    then show ?thesis using fetch_valid_not_invalid [of ft url] by blast
  qed
  with eq len dist show ?thesis by blast
qed

theorem get_available_feeds_catalog_witness:
  "''all_day'' \<in> set get_available_feeds
   \<and> fst (fetch_earthquake_data py_json \<lparr> latency = 2, reply = Timeout ''timed out'' \<rparr>
            \<lparr> clock = 100, fs = Map.empty, trace = [] \<rparr> ''all_day'')
       \<noteq> Returned (ErrorObj ''Invalid feed type: all_day'')"
proof -
  have mem: "''all_day'' \<in> set get_available_feeds"
    by (simp add: get_available_feeds_def)
  from get_available_feeds_catalog [where 'j = json] mem
  have "fst (fetch_earthquake_data py_json \<lparr> latency = 2, reply = Timeout ''timed out'' \<rparr>
            \<lparr> clock = 100, fs = Map.empty, trace = [] \<rparr> ''all_day'')
       \<noteq> Returned (ErrorObj (''Invalid feed type: '' @ ''all_day''))"
    by blast
  with mem show ?thesis by simp
qed

section \<open>An unknown feed identifier\<close>

text \<open>
  C2, as the code has it. For every string that is not a key of the catalog the call
  returns exactly the dictionary whose \<^verbatim>\<open>error\<close> is \<^verbatim>\<open>Invalid feed type: \<close> followed
  by the string; it opens no cache file for reading or writing and contacts no provider.
  The call does touch the file system: \<^verbatim>\<open>ensure_cache_dir\<close> runs before the identifier
  is looked up, and creates the cache directory when it is absent.
\<close>

theorem fetch_unknown_feed:
  "map_of feed_urls ft = None \<Longrightarrow>
   fst (fetch_earthquake_data J n w ft) = Returned (ErrorObj (''Invalid feed type: '' @ ft))
   \<and> snd (fetch_earthquake_data J n w ft) = ensure_cache_dir w
   \<and> clock (snd (fetch_earthquake_data J n w ft)) = clock w
   \<and> fs (snd (fetch_earthquake_data J n w ft)) =
       (if path_exists w CACHE_DIR then fs w else (fs w)(CACHE_DIR \<mapsto> Dir (clock w)))
   \<and> trace (snd (fetch_earthquake_data J n w ft)) =
       trace w @ (if path_exists w CACHE_DIR then [] else [Makedirs CACHE_DIR])"
  by (simp add: fetch_invalid ensure_cache_dir_clock ensure_cache_dir_fs ensure_cache_dir_trace)

lemma bogus_feed_unknown: "map_of feed_urls ''bogus_feed'' = None"
  by (simp add: feed_urls_def)

theorem fetch_unknown_feed_witness:
  "fst (fetch_earthquake_data py_json \<lparr> latency = 2, reply = Timeout ''timed out'' \<rparr>
          \<lparr> clock = 100, fs = [''cache'' \<mapsto> Dir 50], trace = [] \<rparr> ''bogus_feed'')
     = Returned (ErrorObj ''Invalid feed type: bogus_feed'')
   \<and> snd (fetch_earthquake_data py_json \<lparr> latency = 2, reply = Timeout ''timed out'' \<rparr>
          \<lparr> clock = 100, fs = [''cache'' \<mapsto> Dir 50], trace = [] \<rparr> ''bogus_feed'')
     = \<lparr> clock = 100, fs = [''cache'' \<mapsto> Dir 50], trace = [] \<rparr>"
  using fetch_unknown_feed [OF bogus_feed_unknown, of py_json
      "\<lparr> latency = 2, reply = Timeout ''timed out'' \<rparr>"
      "\<lparr> clock = 100, fs = [''cache'' \<mapsto> Dir 50], trace = [] \<rparr>"]
  by (simp add: ensure_cache_dir_def path_exists_def CACHE_DIR_def)

theorem fetch_unknown_feed_creates_directory:
  "map_of feed_urls ''bogus_feed'' = None
   \<and> fs \<lparr> clock = 100, fs = Map.empty, trace = [] \<rparr> ''cache'' = None
   \<and> fs (snd (fetch_earthquake_data py_json \<lparr> latency = 2, reply = Timeout ''timed out'' \<rparr>
               \<lparr> clock = 100, fs = Map.empty, trace = [] \<rparr> ''bogus_feed'')) ''cache''
       = Some (Dir 100)
   \<and> trace (snd (fetch_earthquake_data py_json \<lparr> latency = 2, reply = Timeout ''timed out'' \<rparr>
               \<lparr> clock = 100, fs = Map.empty, trace = [] \<rparr> ''bogus_feed''))
       = [Makedirs ''cache'']"
  by (simp add: fetch_invalid bogus_feed_unknown ensure_cache_dir_def path_exists_def
        makedirs_def CACHE_DIR_def)

section \<open>Writing the cache file\<close>

lemma writable_frame:
  "fs w' = fs w \<Longrightarrow> writable w' p = writable w p"
  by (simp add: writable_def parent_check_def)

lemma perms_after_frame:
  "fs w' = fs w \<Longrightarrow> perms_after w' p = perms_after w p"
  by (simp add: perms_after_def)

lemma open_write_ok:
  "writable w p \<Longrightarrow>
   open_write w p txt =
     (None, w\<lparr> trace := trace w @ [OpenWrite p],
               fs := (fs w)(p \<mapsto> File (clock w) txt (fst (perms_after w p)) (snd (perms_after w p))) \<rparr>)"
  by (auto simp: writable_def open_write_def perms_after_def Let_def
           split: option.splits node.splits)

lemma open_write_fails:
  "\<not> writable w p \<Longrightarrow>
   \<exists>e. open_write w p txt = (Some e, w\<lparr> trace := trace w @ [OpenWrite p] \<rparr>)"
  by (auto simp: writable_def open_write_def Let_def split: option.splits node.splits)

lemma fetch_fresh_written:
  assumes get: "http_get_json J n url = Inr d" and wr: "writable w p"
  shows "fetch_fresh J n w url p =
     (Returned (Payload d),
      w\<lparr> clock := clock w + latency n,
         trace := trace w @ [HttpGet url, OpenWrite p],
         fs := (fs w)(p \<mapsto> File (clock w + latency n) (dumps J d)
                                (fst (perms_after w p)) (snd (perms_after w p))) \<rparr>)"
proof -
  define w1 where "w1 = w\<lparr> clock := clock w + latency n, trace := trace w @ [HttpGet url] \<rparr>"
  have fs1: "fs w1 = fs w" and c1: "clock w1 = clock w + latency n"
    and t1: "trace w1 = trace w @ [HttpGet url]"
    by (simp_all add: w1_def)
  have "writable w1 p" using wr writable_frame [OF fs1, of p] by simp
  then have ow: "open_write w1 p (dumps J d) =
     (None, w1\<lparr> trace := trace w1 @ [OpenWrite p],
               fs := (fs w1)(p \<mapsto> File (clock w1) (dumps J d) (fst (perms_after w1 p)) (snd (perms_after w1 p))) \<rparr>)"
    by (rule open_write_ok)
  have pa: "perms_after w1 p = perms_after w p" using fs1 by (rule perms_after_frame)
  have "fetch_fresh J n w url p =
     (case open_write w1 p (dumps J d) of
        (Some e, w2) \<Rightarrow> (Raised e, w2)
      | (None, w2) \<Rightarrow> (Returned (Payload d), w2))"
    unfolding w1_def using get by (rule fetch_fresh_success)
  also have "\<dots> = (Returned (Payload d), w1\<lparr> trace := trace w1 @ [OpenWrite p],
               fs := (fs w1)(p \<mapsto> File (clock w1) (dumps J d) (fst (perms_after w1 p)) (snd (perms_after w1 p))) \<rparr>)"
    by (simp only: ow prod.case option.case)
  also have "\<dots> = (Returned (Payload d),
      w\<lparr> clock := clock w + latency n,
         trace := trace w @ [HttpGet url, OpenWrite p],
         fs := (fs w)(p \<mapsto> File (clock w + latency n) (dumps J d)
                                (fst (perms_after w p)) (snd (perms_after w p))) \<rparr>)"
    unfolding pa fs1 c1 t1 by (simp add: w1_def)
  finally show ?thesis .
qed

lemma fetch_fresh_raised:
  assumes get: "http_get_json J n url = Inr d" and wr: "\<not> writable w p"
  shows "\<exists>e. fetch_fresh J n w url p =
     (Raised e, w\<lparr> clock := clock w + latency n, trace := trace w @ [HttpGet url, OpenWrite p] \<rparr>)"
proof -
  define w1 where "w1 = w\<lparr> clock := clock w + latency n, trace := trace w @ [HttpGet url] \<rparr>"
  have fs1: "fs w1 = fs w" by (simp add: w1_def)
  have "\<not> writable w1 p" using wr writable_frame [OF fs1, of p] by simp
  from open_write_fails [OF this, of "dumps J d"] obtain e
    where ow: "open_write w1 p (dumps J d) = (Some e, w1\<lparr> trace := trace w1 @ [OpenWrite p] \<rparr>)"
    by blast
  have "fetch_fresh J n w url p =
     (case open_write w1 p (dumps J d) of
        (Some e, w2) \<Rightarrow> (Raised e, w2)
      | (None, w2) \<Rightarrow> (Returned (Payload d), w2))"
    unfolding w1_def using get by (rule fetch_fresh_success)
  also have "\<dots> = (Raised e, w1\<lparr> trace := trace w1 @ [OpenWrite p] \<rparr>)"
    by (simp only: ow prod.case option.case)
  also have "\<dots> = (Raised e, w\<lparr> clock := clock w + latency n, trace := trace w @ [HttpGet url, OpenWrite p] \<rparr>)"
    by (simp add: w1_def)
  finally show ?thesis by blast
qed

lemma after_lookup_fs: "fs (after_lookup w p) = fs (ensure_cache_dir w)"
  by (simp add: after_lookup_def Let_def)

lemma after_lookup_clock: "clock (after_lookup w p) = clock w"
  by (simp add: after_lookup_def Let_def ensure_cache_dir_clock)

lemma fetch_hit:
  "map_of feed_urls ft = Some url \<Longrightarrow> cache_hit J w (get_cache_filename url) = Some d \<Longrightarrow>
   fetch_earthquake_data J n w ft =
     (Returned (Payload d), after_lookup w (get_cache_filename url))"
  by (auto simp: fetch_valid cache_hit_def after_lookup_def Let_def read_cache_world
           split: if_splits)

lemma fetch_miss:
  "map_of feed_urls ft = Some url \<Longrightarrow> cache_hit J w (get_cache_filename url) = None \<Longrightarrow>
   fetch_earthquake_data J n w ft =
     fetch_fresh J n (after_lookup w (get_cache_filename url)) url (get_cache_filename url)"
  by (auto simp: fetch_valid cache_hit_def after_lookup_def Let_def read_cache_world
           split: if_splits)

section \<open>Evaluating the scenarios\<close>

lemma all_day_lookup: "map_of feed_urls ''all_day'' = Some all_day_url"
  by (simp add: feed_urls_def all_day_url_def)

lemma all_day_file_not_dir: "all_day_file \<noteq> CACHE_DIR" "CACHE_DIR \<noteq> all_day_file"
  using cache_filename_not_dir [of all_day_url] by (auto simp: all_day_file_def)

lemma all_day_file_parent: "dirname all_day_file = CACHE_DIR"
  by (simp add: all_day_file_def dirname_cache_filename)

lemma loads_small: "json_loads ''[1,2]'' = Some (JArr [JInt 1, JInt 2])"
  by code_simp

lemma dumps_small: "json_dumps (JArr [JInt 1, JInt 2]) = ''[1, 2]''"
  by code_simp

lemma loads_dumped: "json_loads ''[1, 2]'' = Some (JArr [JInt 1, JInt 2])"
  by code_simp

lemma loads_truncated: \<open>json_loads ''{"type": "Featur'' = None\<close>
  by code_simp

lemma provider_ok_json: "http_get_json py_json provider_ok url = Inr (JArr [JInt 1, JInt 2])"
  by (simp add: http_get_json_def provider_ok_def raise_for_status_def py_json_def loads_small)

lemma provider_timeout_json: "http_get_json J provider_timeout url = Inl ''Read timed out.''"
  by (simp add: http_get_json_def provider_timeout_def)

lemma CACHE_DIR_no_parent: "dirname CACHE_DIR = []"
  by (simp add: dirname_def CACHE_DIR_def)

section \<open>Every way a call can end\<close>

lemma writable_after_lookup:
  "writable (after_lookup w p) p = writable (ensure_cache_dir w) p"
  using writable_frame [OF after_lookup_fs, of w p p] .

lemma perms_after_lookup:
  "perms_after (after_lookup w p) p = perms_after (ensure_cache_dir w) p"
  using perms_after_frame [OF after_lookup_fs, of w p p] .

lemma fetch_miss_failure:
  assumes "map_of feed_urls ft = Some url"
    and "cache_hit J w (get_cache_filename url) = None"
    and "http_get_json J n url = Inl msg"
  shows "fetch_earthquake_data J n w ft =
     (Returned (fetch_failed msg),
      (after_lookup w (get_cache_filename url))
        \<lparr> clock := clock w + latency n,
          trace := trace (after_lookup w (get_cache_filename url)) @ [HttpGet url] \<rparr>)"
  using assms by (simp add: fetch_miss fetch_fresh_failure after_lookup_clock)

lemma fetch_miss_written:
  assumes "map_of feed_urls ft = Some url"
    and "cache_hit J w (get_cache_filename url) = None"
    and "http_get_json J n url = Inr d"
    and "writable (ensure_cache_dir w) (get_cache_filename url)"
  shows "fetch_earthquake_data J n w ft =
     (Returned (Payload d),
      (after_lookup w (get_cache_filename url))
        \<lparr> clock := clock w + latency n,
          trace := trace (after_lookup w (get_cache_filename url))
                     @ [HttpGet url, OpenWrite (get_cache_filename url)],
          fs := (fs (ensure_cache_dir w))(get_cache_filename url \<mapsto>
                   File (clock w + latency n) (dumps J d)
                     (fst (perms_after (ensure_cache_dir w) (get_cache_filename url)))
                     (snd (perms_after (ensure_cache_dir w) (get_cache_filename url)))) \<rparr>)"
proof -
  have "writable (after_lookup w (get_cache_filename url)) (get_cache_filename url)"
    using assms(4) by (simp only: writable_after_lookup)
  from fetch_fresh_written [OF assms(3) this]
  show ?thesis
    using assms(1,2)
    by (simp only: fetch_miss perms_after_lookup after_lookup_fs after_lookup_clock)
qed

lemma fetch_miss_raised:
  assumes "map_of feed_urls ft = Some url"
    and "cache_hit J w (get_cache_filename url) = None"
    and "http_get_json J n url = Inr d"
    and "\<not> writable (ensure_cache_dir w) (get_cache_filename url)"
  shows "\<exists>e. fetch_earthquake_data J n w ft =
     (Raised e,
      (after_lookup w (get_cache_filename url))
        \<lparr> clock := clock w + latency n,
          trace := trace (after_lookup w (get_cache_filename url))
                     @ [HttpGet url, OpenWrite (get_cache_filename url)] \<rparr>)"
proof -
  have "\<not> writable (after_lookup w (get_cache_filename url)) (get_cache_filename url)"
    using assms(4) writable_after_lookup [of w "get_cache_filename url"] by blast
  from fetch_fresh_raised [OF assms(3) this]
  show ?thesis
    using assms(1,2) by (simp only: fetch_miss after_lookup_clock)
qed

lemma http_get_json_failures:
  "(reply n = Timeout m \<longrightarrow> http_get_json J n url = Inl m)
   \<and> (reply n = ConnectionError m \<longrightarrow> http_get_json J n url = Inl m)
   \<and> (reply n = Response st rs body \<and> 400 \<le> st \<and> st < 600 \<longrightarrow>
        (\<exists>msg. http_get_json J n url = Inl msg))"
  by (auto simp: http_get_json_def raise_for_status_def)

lemma after_lookup_trace:
  "\<exists>ev. trace (after_lookup w p) = trace w @ ev \<and> set ev \<subseteq> {Makedirs CACHE_DIR, OpenRead p}"
  by (auto simp: after_lookup_def Let_def ensure_cache_dir_trace)

lemma CACHE_DIR_nonempty: "CACHE_DIR \<noteq> []"
  by (simp add: CACHE_DIR_def)

lemma ensure_world_empty_dir: "ensure_cache_dir world_empty_dir = world_empty_dir"
  by (simp add: ensure_cache_dir_def path_exists_def world_empty_dir_def)

lemma ensure_world_truncated: "ensure_cache_dir world_truncated = world_truncated"
  by (simp add: ensure_cache_dir_def path_exists_def world_truncated_def all_day_file_not_dir)

lemma ensure_world_read_only: "ensure_cache_dir world_read_only = world_read_only"
  by (simp add: ensure_cache_dir_def path_exists_def world_read_only_def all_day_file_not_dir)

lemma ensure_world_no_dir:
  "ensure_cache_dir world_no_dir = \<lparr> clock = 100, fs = [CACHE_DIR \<mapsto> Dir 100], trace = [Makedirs CACHE_DIR] \<rparr>"
  by (simp add: ensure_cache_dir_def path_exists_def world_no_dir_def makedirs_def)

lemma miss_empty_dir: "cache_hit J world_empty_dir all_day_file = None"
  by (simp add: cache_hit_def ensure_world_empty_dir is_cache_valid_def)
     (simp add: world_empty_dir_def all_day_file_not_dir)

lemma miss_no_dir: "cache_hit J world_no_dir all_day_file = None"
  by (simp add: cache_hit_def ensure_world_no_dir is_cache_valid_def all_day_file_not_dir)

lemma valid_truncated: "is_cache_valid (ensure_cache_dir world_truncated) all_day_file"
  by (simp add: ensure_world_truncated is_cache_valid_def)
     (simp add: world_truncated_def CACHE_DURATION_def)

lemma unreadable_truncated: "fst (read_cache py_json (ensure_cache_dir world_truncated) all_day_file) = None"
  by (simp add: ensure_world_truncated read_cache_value)
     (simp add: world_truncated_def py_json_def loads_truncated)

lemma miss_read_only: "cache_hit J world_read_only all_day_file = None"
  by (simp add: cache_hit_def ensure_world_read_only is_cache_valid_def)
     (simp add: world_read_only_def CACHE_DURATION_def)

lemma writable_empty_dir: "writable (ensure_cache_dir world_empty_dir) all_day_file"
  by (simp add: ensure_world_empty_dir writable_def parent_check_def all_day_file_parent CACHE_DIR_nonempty)
     (simp add: world_empty_dir_def all_day_file_not_dir CACHE_DIR_nonempty)

lemma writable_truncated: "writable (ensure_cache_dir world_truncated) all_day_file"
  by (simp add: ensure_world_truncated writable_def parent_check_def all_day_file_parent CACHE_DIR_nonempty)
     (simp add: world_truncated_def all_day_file_not_dir CACHE_DIR_nonempty)

lemma not_writable_read_only: "\<not> writable (ensure_cache_dir world_read_only) all_day_file"
  by (simp add: ensure_world_read_only writable_def parent_check_def all_day_file_parent CACHE_DIR_nonempty)
     (simp add: world_read_only_def all_day_file_not_dir CACHE_DIR_nonempty)

section \<open>A cache file that cannot be written\<close>

text \<open>
  C3. The claim is that every failure, a failed cache write among them, ends in a result
  value and that the call never raises. The code does not achieve this for the write:
  \<^verbatim>\<open>open(cache_file, 'w')\<close> stands in the \<^verbatim>\<open>try\<close> block whose handler names only
  \<^verbatim>\<open>requests.RequestException\<close>, whereas the handler of the read names \<^verbatim>\<open>IOError\<close>.
  With an expired cache file that is read-only and a provider that answers with JSON,
  the call raises \<^verbatim>\<open>PermissionError\<close>.
\<close>

theorem fetch_raises_on_read_only_cache_file:
  "map_of feed_urls ''all_day'' = Some all_day_url
   \<and> fs world_read_only all_day_file = Some (File 90 ''[]'' True False)
   \<and> fst (fetch_earthquake_data py_json provider_ok world_read_only ''all_day'')
       = Raised (PermissionError all_day_file)"
proof -
  have miss: "cache_hit py_json world_read_only (get_cache_filename all_day_url) = None"
    using miss_read_only [of py_json] by (simp add: all_day_file_def)
  have node: "fs world_read_only all_day_file = Some (File 90 ''[]'' True False)"
    by (simp add: world_read_only_def)
  have look: "after_lookup world_read_only all_day_file = world_read_only"
    by (simp add: after_lookup_def ensure_world_read_only is_cache_valid_def node CACHE_DURATION_def)
       (simp add: world_read_only_def)
  have "fst (fetch_fresh py_json provider_ok world_read_only all_day_url all_day_file)
          = Raised (PermissionError all_day_file)"
    by (simp add: fetch_fresh_success [OF provider_ok_json] open_write_def parent_check_def
          all_day_file_parent CACHE_DIR_nonempty Let_def node)
       (simp add: world_read_only_def all_day_file_not_dir)
  with fetch_miss [OF all_day_lookup miss, of provider_ok] look all_day_lookup node
  show ?thesis by (simp add: all_day_file_def)
qed

section \<open>A network failure leaves the cache files alone\<close>

text \<open>
  C10, as the code has it. When the provider cannot be reached or answers with a failure
  for a valid feed identifier, the call returns the error result, opens no file for
  writing and leaves every cache file as it was. The file system can still differ from
  what it was before the call: \<^verbatim>\<open>ensure_cache_dir\<close> has created the cache directory if
  it was absent. With the directory present the file system is unchanged.
\<close>

theorem fetch_failure_keeps_cache_files:
  "map_of feed_urls ft = Some url \<Longrightarrow> http_get_json J n url = Inl msg \<Longrightarrow>
   (cache_hit J w (get_cache_filename url) = None \<longrightarrow>
      fst (fetch_earthquake_data J n w ft) = Returned (fetch_failed msg))
   \<and> fs (snd (fetch_earthquake_data J n w ft)) = fs (ensure_cache_dir w)
   \<and> (\<forall>q. q \<noteq> CACHE_DIR \<longrightarrow> fs (snd (fetch_earthquake_data J n w ft)) q = fs w q)
   \<and> (path_exists w CACHE_DIR \<longrightarrow> fs (snd (fetch_earthquake_data J n w ft)) = fs w)
   \<and> (\<forall>q. OpenWrite q \<notin> set (new_events w (snd (fetch_earthquake_data J n w ft))))"
proof -
  assume url: "map_of feed_urls ft = Some url" and fail: "http_get_json J n url = Inl msg"
  let ?p = "get_cache_filename url"
  let ?F = "fetch_earthquake_data J n w ft"
  obtain ev where ev: "trace (after_lookup w ?p) = trace w @ ev"
    and evs: "set ev \<subseteq> {Makedirs CACHE_DIR, OpenRead ?p}"
    using after_lookup_trace [of w ?p] by blast
  have res: "cache_hit J w ?p = None \<longrightarrow> fst ?F = Returned (fetch_failed msg)"
    using url fail by (simp add: fetch_miss_failure)
  have world: "fs (snd ?F) = fs (ensure_cache_dir w)
               \<and> (\<exists>ev'. trace (snd ?F) = trace w @ ev @ ev' \<and> set ev' \<subseteq> {HttpGet url})"
  proof (cases "cache_hit J w ?p")
    case None
    from fetch_miss_failure [OF url None fail] show ?thesis
      by (simp add: after_lookup_fs ev)
  next
    case (Some d)
    from fetch_hit [OF url Some, where n = n] show ?thesis
      by (simp add: after_lookup_fs ev)
  qed
  then obtain ev' where tr: "trace (snd ?F) = trace w @ ev @ ev'" and evs': "set ev' \<subseteq> {HttpGet url}"
    by blast
  have new: "new_events w (snd ?F) = ev @ ev'"
    by (simp add: new_events_def tr)
  have nowrite: "\<forall>q. OpenWrite q \<notin> set (new_events w (snd ?F))"
    using evs evs' by (auto simp: new)
  have other: "\<forall>q. q \<noteq> CACHE_DIR \<longrightarrow> fs (snd ?F) q = fs w q"
    using world by (simp add: ensure_cache_dir_other)
  have same: "path_exists w CACHE_DIR \<longrightarrow> fs (snd ?F) = fs w"
    using world by (simp add: ensure_cache_dir_fs)
  from res world other same nowrite show ?thesis by blast
qed

theorem fetch_failure_keeps_cache_files_witness:
  "fst (fetch_earthquake_data py_json provider_timeout world_truncated ''all_day'')
     = Returned (fetch_failed ''Read timed out.'')
   \<and> fs (snd (fetch_earthquake_data py_json provider_timeout world_truncated ''all_day''))
     = fs world_truncated"
proof -
  have miss: "cache_hit py_json world_truncated (get_cache_filename all_day_url) = None"
    using valid_truncated unreadable_truncated
    by (simp add: cache_hit_def all_day_file_def)
  have dir: "path_exists world_truncated CACHE_DIR"
    by (simp add: path_exists_def world_truncated_def all_day_file_not_dir)
  from fetch_failure_keeps_cache_files
         [OF all_day_lookup provider_timeout_json, of py_json world_truncated] miss dir
  show ?thesis by blast
qed

theorem fetch_failure_creates_directory:
  "map_of feed_urls ''all_day'' = Some all_day_url
   \<and> fst (fetch_earthquake_data py_json provider_timeout world_no_dir ''all_day'')
       = Returned (fetch_failed ''Read timed out.'')
   \<and> fs world_no_dir CACHE_DIR = None
   \<and> fs (snd (fetch_earthquake_data py_json provider_timeout world_no_dir ''all_day'')) CACHE_DIR
       = Some (Dir 100)
   \<and> fs (snd (fetch_earthquake_data py_json provider_timeout world_no_dir ''all_day''))
       \<noteq> fs world_no_dir"
proof -
  have miss: "cache_hit py_json world_no_dir (get_cache_filename all_day_url) = None"
    using miss_no_dir [of py_json] by (simp add: all_day_file_def)
  from fetch_miss_failure [OF all_day_lookup miss provider_timeout_json]
  have res: "fst (fetch_earthquake_data py_json provider_timeout world_no_dir ''all_day'')
               = Returned (fetch_failed ''Read timed out.'')"
    and fs': "fs (snd (fetch_earthquake_data py_json provider_timeout world_no_dir ''all_day''))
               = fs (ensure_cache_dir world_no_dir)"
    by (simp_all add: after_lookup_fs)
  have before: "fs world_no_dir CACHE_DIR = None"
    by (simp add: world_no_dir_def)
  have after: "fs (ensure_cache_dir world_no_dir) CACHE_DIR = Some (Dir 100)"
    by (simp add: ensure_world_no_dir)
  from before after have "fs (ensure_cache_dir world_no_dir) \<noteq> fs world_no_dir"
    by (metis option.distinct(1))
  with res fs' before after all_day_lookup show ?thesis by simp
qed

section \<open>What a successful fetch writes\<close>

text \<open>
  C6, as the code has it. On a successful fetch whose cache file can be written, the call
  returns the parsed body and the cache file holds \<^verbatim>\<open>json.dump\<close> of the parsed body,
  whatever it held before, with the time of the write as its modification time; no other
  path changes. The file holds a new serialisation of the data, not the bytes received:
  it parses back to the same data whenever the library reads back what it writes.
\<close>

theorem fetch_success_writes_dump:
  "map_of feed_urls ft = Some url \<Longrightarrow>
   cache_hit J w (get_cache_filename url) = None \<Longrightarrow>
   http_get_json J n url = Inr d \<Longrightarrow>
   writable (ensure_cache_dir w) (get_cache_filename url) \<Longrightarrow>
   fst (fetch_earthquake_data J n w ft) = Returned (Payload d)
   \<and> fs (snd (fetch_earthquake_data J n w ft)) (get_cache_filename url) =
       Some (File (clock w + latency n) (dumps J d)
               (fst (perms_after (ensure_cache_dir w) (get_cache_filename url)))
               (snd (perms_after (ensure_cache_dir w) (get_cache_filename url))))
   \<and> (\<forall>q. q \<noteq> get_cache_filename url \<longrightarrow>
          fs (snd (fetch_earthquake_data J n w ft)) q = fs (ensure_cache_dir w) q)
   \<and> (loads J (dumps J d) = Some d
        \<and> fst (perms_after (ensure_cache_dir w) (get_cache_filename url)) \<longrightarrow>
        fst (read_cache J (snd (fetch_earthquake_data J n w ft)) (get_cache_filename url)) = Some d)"
proof -
  assume url: "map_of feed_urls ft = Some url"
    and miss: "cache_hit J w (get_cache_filename url) = None"
    and got: "http_get_json J n url = Inr d"
    and wr: "writable (ensure_cache_dir w) (get_cache_filename url)"
  let ?p = "get_cache_filename url"
  let ?F = "fetch_earthquake_data J n w ft"
  note eq = fetch_miss_written [OF url miss got wr]
  have res: "fst ?F = Returned (Payload d)" by (simp add: eq)
  have node: "fs (snd ?F) ?p =
       Some (File (clock w + latency n) (dumps J d)
               (fst (perms_after (ensure_cache_dir w) ?p)) (snd (perms_after (ensure_cache_dir w) ?p)))"
    by (simp add: eq)
  have other: "\<forall>q. q \<noteq> ?p \<longrightarrow> fs (snd ?F) q = fs (ensure_cache_dir w) q"
    by (simp add: eq)
  have reread: "loads J (dumps J d) = Some d \<and> fst (perms_after (ensure_cache_dir w) ?p) \<longrightarrow>
        fst (read_cache J (snd ?F) ?p) = Some d"
    by (simp add: read_cache_value node)
  from res node other reread show ?thesis by blast
qed

lemma py_json_dumps: "dumps py_json = json_dumps"
  by (simp add: py_json_def)

lemma py_json_loads: "loads py_json = json_loads"
  by (simp add: py_json_def)

lemma perms_empty_dir: "perms_after (ensure_cache_dir world_empty_dir) all_day_file = (True, True)"
  by (simp add: ensure_world_empty_dir perms_after_def)
     (simp add: world_empty_dir_def all_day_file_not_dir)

theorem fetch_success_writes_dump_witness:
  "fst (fetch_earthquake_data py_json provider_ok world_empty_dir ''all_day'')
     = Returned (Payload (JArr [JInt 1, JInt 2]))
   \<and> fs (snd (fetch_earthquake_data py_json provider_ok world_empty_dir ''all_day'')) all_day_file
     = Some (File 102 ''[1, 2]'' True True)
   \<and> fst (read_cache py_json (snd (fetch_earthquake_data py_json provider_ok world_empty_dir ''all_day''))
            all_day_file) = Some (JArr [JInt 1, JInt 2])"
proof -
  have miss: "cache_hit py_json world_empty_dir (get_cache_filename all_day_url) = None"
    using miss_empty_dir [of py_json] by (simp add: all_day_file_def)
  have wr: "writable (ensure_cache_dir world_empty_dir) (get_cache_filename all_day_url)"
    using writable_empty_dir by (simp add: all_day_file_def)
  note perms = perms_empty_dir [unfolded all_day_file_def]
  have dump: "dumps py_json (JArr [JInt 1, JInt 2]) = ''[1, 2]''"
    by (simp only: py_json_dumps dumps_small)
  have reread: "loads py_json (dumps py_json (JArr [JInt 1, JInt 2])) = Some (JArr [JInt 1, JInt 2])"
    by (simp only: dump py_json_loads loads_dumped)
  have clock: "clock world_empty_dir + latency provider_ok = 102"
    by (simp add: world_empty_dir_def provider_ok_def)
  from fetch_success_writes_dump [OF all_day_lookup miss provider_ok_json wr] perms dump reread clock
  show ?thesis by (simp add: all_day_file_def)
qed

theorem fetch_success_file_differs_from_body:
  "reply provider_ok = Response 200 ''OK'' ''[1,2]''
   \<and> fst (fetch_earthquake_data py_json provider_ok world_empty_dir ''all_day'')
       = Returned (Payload (JArr [JInt 1, JInt 2]))
   \<and> fs (snd (fetch_earthquake_data py_json provider_ok world_empty_dir ''all_day'')) all_day_file
       = Some (File 102 ''[1, 2]'' True True)
   \<and> ''[1, 2]'' \<noteq> ''[1,2]''"
proof -
  have miss: "cache_hit py_json world_empty_dir (get_cache_filename all_day_url) = None"
    using miss_empty_dir [of py_json] by (simp add: all_day_file_def)
  have wr: "writable (ensure_cache_dir world_empty_dir) (get_cache_filename all_day_url)"
    using writable_empty_dir by (simp add: all_day_file_def)
  note perms = perms_empty_dir [unfolded all_day_file_def]
  have dump: "dumps py_json (JArr [JInt 1, JInt 2]) = ''[1, 2]''"
    by (simp only: py_json_dumps dumps_small)
  have clock: "clock world_empty_dir + latency provider_ok = 102"
    by (simp add: world_empty_dir_def provider_ok_def)
  have body: "reply provider_ok = Response 200 ''OK'' ''[1,2]''"
    by (simp add: provider_ok_def)
  from fetch_miss_written [OF all_day_lookup miss provider_ok_json wr] perms dump clock body
  show ?thesis by (simp add: all_day_file_def)
qed

section \<open>A corrupted cache file\<close>

text \<open>
  A cache file that is within the TTL and whose text cannot be read or does not parse:
  the call is exactly the fresh fetch, run after the attempt to read. If the provider
  fails, the error returned is the one of the fetch; if the fetch succeeds and the file
  can be written, the call returns the fresh data and the file holds them.
\<close>

lemma fetch_falls_through_on_corrupt_cache:
  "map_of feed_urls ft = Some url \<Longrightarrow>
   is_cache_valid (ensure_cache_dir w) (get_cache_filename url) \<Longrightarrow>
   fst (read_cache J (ensure_cache_dir w) (get_cache_filename url)) = None \<Longrightarrow>
   fetch_earthquake_data J n w ft =
     fetch_fresh J n
       ((ensure_cache_dir w)\<lparr> trace := trace (ensure_cache_dir w) @ [OpenRead (get_cache_filename url)] \<rparr>)
       url (get_cache_filename url)
   \<and> (\<forall>msg. http_get_json J n url = Inl msg \<longrightarrow>
          fst (fetch_earthquake_data J n w ft) = Returned (fetch_failed msg))
   \<and> (\<forall>d. http_get_json J n url = Inr d
            \<and> writable (ensure_cache_dir w) (get_cache_filename url) \<longrightarrow>
          fst (fetch_earthquake_data J n w ft) = Returned (Payload d)
          \<and> fs (snd (fetch_earthquake_data J n w ft)) (get_cache_filename url) =
              Some (File (clock w + latency n) (dumps J d)
                      (fst (perms_after (ensure_cache_dir w) (get_cache_filename url)))
                      (snd (perms_after (ensure_cache_dir w) (get_cache_filename url))))
          \<and> HttpGet url \<in> set (new_events w (snd (fetch_earthquake_data J n w ft))))"
proof -
  assume url: "map_of feed_urls ft = Some url"
    and valid: "is_cache_valid (ensure_cache_dir w) (get_cache_filename url)"
    and corrupt: "fst (read_cache J (ensure_cache_dir w) (get_cache_filename url)) = None"
  let ?p = "get_cache_filename url"
  let ?F = "fetch_earthquake_data J n w ft"
  have miss: "cache_hit J w ?p = None"
    using valid corrupt by (simp add: cache_hit_def)
  have look: "after_lookup w ?p = (ensure_cache_dir w)\<lparr> trace := trace (ensure_cache_dir w) @ [OpenRead ?p] \<rparr>"
    using valid by (simp add: after_lookup_def Let_def)
  have through: "?F = fetch_fresh J n
       ((ensure_cache_dir w)\<lparr> trace := trace (ensure_cache_dir w) @ [OpenRead ?p] \<rparr>) url ?p"
    using fetch_miss [OF url miss, of n] by (simp only: look)
  have failed: "\<forall>msg. http_get_json J n url = Inl msg \<longrightarrow> fst ?F = Returned (fetch_failed msg)"
    using url miss by (simp add: fetch_miss_failure)
  obtain ev where ev: "trace (after_lookup w ?p) = trace w @ ev"
    using after_lookup_trace [of w ?p] by blast
  have fresh: "fst ?F = Returned (Payload d)
          \<and> fs (snd ?F) ?p =
              Some (File (clock w + latency n) (dumps J d)
                      (fst (perms_after (ensure_cache_dir w) ?p))
                      (snd (perms_after (ensure_cache_dir w) ?p)))
          \<and> HttpGet url \<in> set (new_events w (snd ?F))"
    if "http_get_json J n url = Inr d" "writable (ensure_cache_dir w) ?p" for d
    using fetch_miss_written [OF url miss that] by (simp add: new_events_def ev)
  from through failed fresh show ?thesis by blast
qed

lemma ensure_world_truncated_read_only:
  "ensure_cache_dir world_truncated_read_only = world_truncated_read_only"
  by (simp add: ensure_cache_dir_def path_exists_def world_truncated_read_only_def all_day_file_not_dir)

text \<open>
  C4. The claim is that a cache file within the TTL that cannot be read or parsed is
  passed over silently: the call fetches, overwrites the file and returns the fresh data.
  The code does not achieve this when the file cannot be written: with a truncated
  read-only cache file, ten seconds old, and a provider that answers with JSON, the parse
  fails, the fetch succeeds, and \<^verbatim>\<open>open(cache_file, 'w')\<close> raises \<^verbatim>\<open>PermissionError\<close>,
  which the handler of that block, naming only \<^verbatim>\<open>requests.RequestException\<close>, lets
  escape.
\<close>

theorem fetch_raises_on_corrupt_read_only_cache_file:
  \<open>fs world_truncated_read_only all_day_file = Some (File 90 ''{"type": "Featur'' True False)
   \<and> is_cache_valid (ensure_cache_dir world_truncated_read_only) all_day_file
   \<and> fst (read_cache py_json (ensure_cache_dir world_truncated_read_only) all_day_file) = None
   \<and> http_get_json py_json provider_ok all_day_url = Inr (JArr [JInt 1, JInt 2])
   \<and> fst (fetch_earthquake_data py_json provider_ok world_truncated_read_only ''all_day'')
       = Raised (PermissionError all_day_file)\<close>
proof -
  let ?w = world_truncated_read_only
  have node: \<open>fs ?w all_day_file = Some (File 90 ''{"type": "Featur'' True False)\<close>
    by (simp add: world_truncated_read_only_def)
  have dir: "fs ?w CACHE_DIR = Some (Dir 50)"
    by (simp add: world_truncated_read_only_def all_day_file_not_dir)
  have now: "clock ?w = 100"
    by (simp add: world_truncated_read_only_def)
  have valid: "is_cache_valid (ensure_cache_dir ?w) all_day_file"
    by (simp add: ensure_world_truncated_read_only is_cache_valid_def node now CACHE_DURATION_def)
  have unread: "fst (read_cache py_json (ensure_cache_dir ?w) all_day_file) = None"
    by (simp add: ensure_world_truncated_read_only read_cache_value node py_json_loads loads_truncated)
  have miss: "cache_hit py_json ?w (get_cache_filename all_day_url) = None"
    using valid unread by (simp add: cache_hit_def all_day_file_def)
  have fsl: "fs (after_lookup ?w all_day_file) = fs ?w"
    by (simp add: after_lookup_fs ensure_world_truncated_read_only)
  have "fst (fetch_fresh py_json provider_ok (after_lookup ?w all_day_file) all_day_url all_day_file)
          = Raised (PermissionError all_day_file)"
    by (simp add: fetch_fresh_success [OF provider_ok_json] open_write_def parent_check_def
          all_day_file_parent CACHE_DIR_nonempty Let_def fsl node dir)
  with fetch_miss [OF all_day_lookup miss, of provider_ok] node valid unread
    provider_ok_json [of all_day_url]
  show ?thesis by (simp add: all_day_file_def)
qed

section \<open>Calls within the TTL after a fetch\<close>





section \<open>The digests of the catalog URLs\<close>

text \<open>
  The digest of each URL of the catalog is computed in steps: the two blocks of 64 bytes
  the padded URL consists of, the processing of each block, the hexadecimal text.
\<close>

lemma replicate_numeral_unfold: "replicate (numeral k) x = x # replicate (pred_numeral k) x"
  by (simp add: numeral_eq_Suc)

lemma upt_0_64:
  "[0..<64] =
     0 # 1 # 2 # 3 # 4 # 5 # 6 # 7 # 8 # 9 # 10 # 11 # 12 # 13 # 14 # 15 #
     16 # 17 # 18 # 19 # 20 # 21 # 22 # 23 # 24 # 25 # 26 # 27 # 28 # 29 # 30 # 31 #
     32 # 33 # 34 # 35 # 36 # 37 # 38 # 39 # 40 # 41 # 42 # 43 # 44 # 45 # 46 # 47 #
     48 # 49 # 50 # 51 # 52 # 53 # 54 # 55 # 56 # 57 # 58 # 59 # 60 # 61 # 62 # 63 # []"
  by (simp add: upt_rec)

lemmas md5_block_eval = md5_block_def md5_step_def md5_K_def md5_S_def leftrotate_def upt_0_64

lemma blocks_significant_hour:
  "md5_blocks (md5_pad (encode
     ''https://earthquake.usgs.gov/earthquakes/feed/v1.0/summary/significant_hour.geojson'')) =
     [[0x68, 0x74, 0x74, 0x70, 0x73, 0x3a, 0x2f, 0x2f, 0x65, 0x61, 0x72, 0x74, 0x68, 0x71, 0x75, 0x61,
      0x6b, 0x65, 0x2e, 0x75, 0x73, 0x67, 0x73, 0x2e, 0x67, 0x6f, 0x76, 0x2f, 0x65, 0x61, 0x72, 0x74,
      0x68, 0x71, 0x75, 0x61, 0x6b, 0x65, 0x73, 0x2f, 0x66, 0x65, 0x65, 0x64, 0x2f, 0x76, 0x31, 0x2e,
      0x30, 0x2f, 0x73, 0x75, 0x6d, 0x6d, 0x61, 0x72, 0x79, 0x2f, 0x73, 0x69, 0x67, 0x6e, 0x69, 0x66],
      [0x69, 0x63, 0x61, 0x6e, 0x74, 0x5f, 0x68, 0x6f, 0x75, 0x72, 0x2e, 0x67, 0x65, 0x6f, 0x6a, 0x73,
      0x6f, 0x6e, 0x80, 0x00, 0x00, 0x00, 0x00, 0x00, 0x00, 0x00, 0x00, 0x00, 0x00, 0x00, 0x00, 0x00,
      0x00, 0x00, 0x00, 0x00, 0x00, 0x00, 0x00, 0x00, 0x00, 0x00, 0x00, 0x00, 0x00, 0x00, 0x00, 0x00,
      0x00, 0x00, 0x00, 0x00, 0x00, 0x00, 0x00, 0x00, 0x90, 0x02, 0x00, 0x00, 0x00, 0x00, 0x00, 0x00]]"
  by (simp add: md5_pad_def encode_def md5_blocks.simps le_bytes8_def replicate_numeral_unfold)

lemma block_significant_hour_1:
  "md5_block md5_init
     [0x68, 0x74, 0x74, 0x70, 0x73, 0x3a, 0x2f, 0x2f, 0x65, 0x61, 0x72, 0x74, 0x68, 0x71, 0x75, 0x61,
     0x6b, 0x65, 0x2e, 0x75, 0x73, 0x67, 0x73, 0x2e, 0x67, 0x6f, 0x76, 0x2f, 0x65, 0x61, 0x72, 0x74,
     0x68, 0x71, 0x75, 0x61, 0x6b, 0x65, 0x73, 0x2f, 0x66, 0x65, 0x65, 0x64, 0x2f, 0x76, 0x31, 0x2e,
     0x30, 0x2f, 0x73, 0x75, 0x6d, 0x6d, 0x61, 0x72, 0x79, 0x2f, 0x73, 0x69, 0x67, 0x6e, 0x69, 0x66] =
     (0x9c17e197, 0x631bc53d, 0x12934fd5, 0x2e2f694f)"
  by (simp add: md5_block_eval md5_init_def)

lemma block_significant_hour_2:
  "md5_block (0x9c17e197, 0x631bc53d, 0x12934fd5, 0x2e2f694f)
     [0x69, 0x63, 0x61, 0x6e, 0x74, 0x5f, 0x68, 0x6f, 0x75, 0x72, 0x2e, 0x67, 0x65, 0x6f, 0x6a, 0x73,
     0x6f, 0x6e, 0x80, 0x00, 0x00, 0x00, 0x00, 0x00, 0x00, 0x00, 0x00, 0x00, 0x00, 0x00, 0x00, 0x00,
     0x00, 0x00, 0x00, 0x00, 0x00, 0x00, 0x00, 0x00, 0x00, 0x00, 0x00, 0x00, 0x00, 0x00, 0x00, 0x00,
     0x00, 0x00, 0x00, 0x00, 0x00, 0x00, 0x00, 0x00, 0x90, 0x02, 0x00, 0x00, 0x00, 0x00, 0x00, 0x00] =
     (0x2ca47fc9, 0xff17bae8, 0xe495af7a, 0xdd42a4e1)"
  by (simp add: md5_block_eval)

lemma digest_significant_hour:
  "md5_hex ''https://earthquake.usgs.gov/earthquakes/feed/v1.0/summary/significant_hour.geojson'' =
     ''c97fa42ce8ba17ff7aaf95e4e1a442dd''"
  by (simp add: md5_hex_def md5_digest_def blocks_significant_hour block_significant_hour_1 block_significant_hour_2
        le_bytes4_def hexdigest_def hex_byte_def hex_digit_def)

lemma blocks_significant_day:
  "md5_blocks (md5_pad (encode
     ''https://earthquake.usgs.gov/earthquakes/feed/v1.0/summary/significant_day.geojson'')) =
     [[0x68, 0x74, 0x74, 0x70, 0x73, 0x3a, 0x2f, 0x2f, 0x65, 0x61, 0x72, 0x74, 0x68, 0x71, 0x75, 0x61,
      0x6b, 0x65, 0x2e, 0x75, 0x73, 0x67, 0x73, 0x2e, 0x67, 0x6f, 0x76, 0x2f, 0x65, 0x61, 0x72, 0x74,
      0x68, 0x71, 0x75, 0x61, 0x6b, 0x65, 0x73, 0x2f, 0x66, 0x65, 0x65, 0x64, 0x2f, 0x76, 0x31, 0x2e,
      0x30, 0x2f, 0x73, 0x75, 0x6d, 0x6d, 0x61, 0x72, 0x79, 0x2f, 0x73, 0x69, 0x67, 0x6e, 0x69, 0x66],
      [0x69, 0x63, 0x61, 0x6e, 0x74, 0x5f, 0x64, 0x61, 0x79, 0x2e, 0x67, 0x65, 0x6f, 0x6a, 0x73, 0x6f,
      0x6e, 0x80, 0x00, 0x00, 0x00, 0x00, 0x00, 0x00, 0x00, 0x00, 0x00, 0x00, 0x00, 0x00, 0x00, 0x00,
      0x00, 0x00, 0x00, 0x00, 0x00, 0x00, 0x00, 0x00, 0x00, 0x00, 0x00, 0x00, 0x00, 0x00, 0x00, 0x00,
      0x00, 0x00, 0x00, 0x00, 0x00, 0x00, 0x00, 0x00, 0x88, 0x02, 0x00, 0x00, 0x00, 0x00, 0x00, 0x00]]"
  by (simp add: md5_pad_def encode_def md5_blocks.simps le_bytes8_def replicate_numeral_unfold)

lemma block_significant_day_2:
  "md5_block (0x9c17e197, 0x631bc53d, 0x12934fd5, 0x2e2f694f)
     [0x69, 0x63, 0x61, 0x6e, 0x74, 0x5f, 0x64, 0x61, 0x79, 0x2e, 0x67, 0x65, 0x6f, 0x6a, 0x73, 0x6f,
     0x6e, 0x80, 0x00, 0x00, 0x00, 0x00, 0x00, 0x00, 0x00, 0x00, 0x00, 0x00, 0x00, 0x00, 0x00, 0x00,
     0x00, 0x00, 0x00, 0x00, 0x00, 0x00, 0x00, 0x00, 0x00, 0x00, 0x00, 0x00, 0x00, 0x00, 0x00, 0x00,
     0x00, 0x00, 0x00, 0x00, 0x00, 0x00, 0x00, 0x00, 0x88, 0x02, 0x00, 0x00, 0x00, 0x00, 0x00, 0x00] =
     (0x94416ff1, 0x50334284, 0x534d6d3b, 0xb61427e3)"
  by (simp add: md5_block_eval)

lemma digest_significant_day:
  "md5_hex ''https://earthquake.usgs.gov/earthquakes/feed/v1.0/summary/significant_day.geojson'' =
     ''f16f4194844233503b6d4d53e32714b6''"
  by (simp add: md5_hex_def md5_digest_def blocks_significant_day block_significant_hour_1 block_significant_day_2
        le_bytes4_def hexdigest_def hex_byte_def hex_digit_def)

lemma blocks_significant_week:
  "md5_blocks (md5_pad (encode
     ''https://earthquake.usgs.gov/earthquakes/feed/v1.0/summary/significant_week.geojson'')) =
     [[0x68, 0x74, 0x74, 0x70, 0x73, 0x3a, 0x2f, 0x2f, 0x65, 0x61, 0x72, 0x74, 0x68, 0x71, 0x75, 0x61,
      0x6b, 0x65, 0x2e, 0x75, 0x73, 0x67, 0x73, 0x2e, 0x67, 0x6f, 0x76, 0x2f, 0x65, 0x61, 0x72, 0x74,
      0x68, 0x71, 0x75, 0x61, 0x6b, 0x65, 0x73, 0x2f, 0x66, 0x65, 0x65, 0x64, 0x2f, 0x76, 0x31, 0x2e,
      0x30, 0x2f, 0x73, 0x75, 0x6d, 0x6d, 0x61, 0x72, 0x79, 0x2f, 0x73, 0x69, 0x67, 0x6e, 0x69, 0x66],
      [0x69, 0x63, 0x61, 0x6e, 0x74, 0x5f, 0x77, 0x65, 0x65, 0x6b, 0x2e, 0x67, 0x65, 0x6f, 0x6a, 0x73,
      0x6f, 0x6e, 0x80, 0x00, 0x00, 0x00, 0x00, 0x00, 0x00, 0x00, 0x00, 0x00, 0x00, 0x00, 0x00, 0x00,
      0x00, 0x00, 0x00, 0x00, 0x00, 0x00, 0x00, 0x00, 0x00, 0x00, 0x00, 0x00, 0x00, 0x00, 0x00, 0x00,
      0x00, 0x00, 0x00, 0x00, 0x00, 0x00, 0x00, 0x00, 0x90, 0x02, 0x00, 0x00, 0x00, 0x00, 0x00, 0x00]]"
  by (simp add: md5_pad_def encode_def md5_blocks.simps le_bytes8_def replicate_numeral_unfold)

lemma block_significant_week_2:
  "md5_block (0x9c17e197, 0x631bc53d, 0x12934fd5, 0x2e2f694f)
     [0x69, 0x63, 0x61, 0x6e, 0x74, 0x5f, 0x77, 0x65, 0x65, 0x6b, 0x2e, 0x67, 0x65, 0x6f, 0x6a, 0x73,
     0x6f, 0x6e, 0x80, 0x00, 0x00, 0x00, 0x00, 0x00, 0x00, 0x00, 0x00, 0x00, 0x00, 0x00, 0x00, 0x00,
     0x00, 0x00, 0x00, 0x00, 0x00, 0x00, 0x00, 0x00, 0x00, 0x00, 0x00, 0x00, 0x00, 0x00, 0x00, 0x00,
     0x00, 0x00, 0x00, 0x00, 0x00, 0x00, 0x00, 0x00, 0x90, 0x02, 0x00, 0x00, 0x00, 0x00, 0x00, 0x00] =
     (0x39f49432, 0xd323ff6e, 0x762962c9, 0x603d43cd)"
  by (simp add: md5_block_eval)

lemma digest_significant_week:
  "md5_hex ''https://earthquake.usgs.gov/earthquakes/feed/v1.0/summary/significant_week.geojson'' =
     ''3294f4396eff23d3c9622976cd433d60''"
  by (simp add: md5_hex_def md5_digest_def blocks_significant_week block_significant_hour_1 block_significant_week_2
        le_bytes4_def hexdigest_def hex_byte_def hex_digit_def)

lemma blocks_significant_month:
  "md5_blocks (md5_pad (encode
     ''https://earthquake.usgs.gov/earthquakes/feed/v1.0/summary/significant_month.geojson'')) =
     [[0x68, 0x74, 0x74, 0x70, 0x73, 0x3a, 0x2f, 0x2f, 0x65, 0x61, 0x72, 0x74, 0x68, 0x71, 0x75, 0x61,
      0x6b, 0x65, 0x2e, 0x75, 0x73, 0x67, 0x73, 0x2e, 0x67, 0x6f, 0x76, 0x2f, 0x65, 0x61, 0x72, 0x74,
      0x68, 0x71, 0x75, 0x61, 0x6b, 0x65, 0x73, 0x2f, 0x66, 0x65, 0x65, 0x64, 0x2f, 0x76, 0x31, 0x2e,
      0x30, 0x2f, 0x73, 0x75, 0x6d, 0x6d, 0x61, 0x72, 0x79, 0x2f, 0x73, 0x69, 0x67, 0x6e, 0x69, 0x66],
      [0x69, 0x63, 0x61, 0x6e, 0x74, 0x5f, 0x6d, 0x6f, 0x6e, 0x74, 0x68, 0x2e, 0x67, 0x65, 0x6f, 0x6a,
      0x73, 0x6f, 0x6e, 0x80, 0x00, 0x00, 0x00, 0x00, 0x00, 0x00, 0x00, 0x00, 0x00, 0x00, 0x00, 0x00,
      0x00, 0x00, 0x00, 0x00, 0x00, 0x00, 0x00, 0x00, 0x00, 0x00, 0x00, 0x00, 0x00, 0x00, 0x00, 0x00,
      0x00, 0x00, 0x00, 0x00, 0x00, 0x00, 0x00, 0x00, 0x98, 0x02, 0x00, 0x00, 0x00, 0x00, 0x00, 0x00]]"
  by (simp add: md5_pad_def encode_def md5_blocks.simps le_bytes8_def replicate_numeral_unfold)

lemma block_significant_month_2:
  "md5_block (0x9c17e197, 0x631bc53d, 0x12934fd5, 0x2e2f694f)
     [0x69, 0x63, 0x61, 0x6e, 0x74, 0x5f, 0x6d, 0x6f, 0x6e, 0x74, 0x68, 0x2e, 0x67, 0x65, 0x6f, 0x6a,
     0x73, 0x6f, 0x6e, 0x80, 0x00, 0x00, 0x00, 0x00, 0x00, 0x00, 0x00, 0x00, 0x00, 0x00, 0x00, 0x00,
     0x00, 0x00, 0x00, 0x00, 0x00, 0x00, 0x00, 0x00, 0x00, 0x00, 0x00, 0x00, 0x00, 0x00, 0x00, 0x00,
     0x00, 0x00, 0x00, 0x00, 0x00, 0x00, 0x00, 0x00, 0x98, 0x02, 0x00, 0x00, 0x00, 0x00, 0x00, 0x00] =
     (0xed7c3c70, 0x3ad0ac7c, 0x33989bac, 0x1bcdf57a)"
  by (simp add: md5_block_eval)

lemma digest_significant_month:
  "md5_hex ''https://earthquake.usgs.gov/earthquakes/feed/v1.0/summary/significant_month.geojson'' =
     ''703c7ced7cacd03aac9b98337af5cd1b''"
  by (simp add: md5_hex_def md5_digest_def blocks_significant_month block_significant_hour_1 block_significant_month_2
        le_bytes4_def hexdigest_def hex_byte_def hex_digit_def)

lemma blocks_m4_5_hour:
  "md5_blocks (md5_pad (encode
     ''https://earthquake.usgs.gov/earthquakes/feed/v1.0/summary/4.5_hour.geojson'')) =
     [[0x68, 0x74, 0x74, 0x70, 0x73, 0x3a, 0x2f, 0x2f, 0x65, 0x61, 0x72, 0x74, 0x68, 0x71, 0x75, 0x61,
      0x6b, 0x65, 0x2e, 0x75, 0x73, 0x67, 0x73, 0x2e, 0x67, 0x6f, 0x76, 0x2f, 0x65, 0x61, 0x72, 0x74,
      0x68, 0x71, 0x75, 0x61, 0x6b, 0x65, 0x73, 0x2f, 0x66, 0x65, 0x65, 0x64, 0x2f, 0x76, 0x31, 0x2e,
      0x30, 0x2f, 0x73, 0x75, 0x6d, 0x6d, 0x61, 0x72, 0x79, 0x2f, 0x34, 0x2e, 0x35, 0x5f, 0x68, 0x6f],
      [0x75, 0x72, 0x2e, 0x67, 0x65, 0x6f, 0x6a, 0x73, 0x6f, 0x6e, 0x80, 0x00, 0x00, 0x00, 0x00, 0x00,
      0x00, 0x00, 0x00, 0x00, 0x00, 0x00, 0x00, 0x00, 0x00, 0x00, 0x00, 0x00, 0x00, 0x00, 0x00, 0x00,
      0x00, 0x00, 0x00, 0x00, 0x00, 0x00, 0x00, 0x00, 0x00, 0x00, 0x00, 0x00, 0x00, 0x00, 0x00, 0x00,
      0x00, 0x00, 0x00, 0x00, 0x00, 0x00, 0x00, 0x00, 0x50, 0x02, 0x00, 0x00, 0x00, 0x00, 0x00, 0x00]]"
  by (simp add: md5_pad_def encode_def md5_blocks.simps le_bytes8_def replicate_numeral_unfold)

lemma block_m4_5_hour_1:
  "md5_block md5_init
     [0x68, 0x74, 0x74, 0x70, 0x73, 0x3a, 0x2f, 0x2f, 0x65, 0x61, 0x72, 0x74, 0x68, 0x71, 0x75, 0x61,
     0x6b, 0x65, 0x2e, 0x75, 0x73, 0x67, 0x73, 0x2e, 0x67, 0x6f, 0x76, 0x2f, 0x65, 0x61, 0x72, 0x74,
     0x68, 0x71, 0x75, 0x61, 0x6b, 0x65, 0x73, 0x2f, 0x66, 0x65, 0x65, 0x64, 0x2f, 0x76, 0x31, 0x2e,
     0x30, 0x2f, 0x73, 0x75, 0x6d, 0x6d, 0x61, 0x72, 0x79, 0x2f, 0x34, 0x2e, 0x35, 0x5f, 0x68, 0x6f] =
     (0xf00692d3, 0xbdd73a92, 0xfa4573f5, 0x5ff7f663)"
  by (simp add: md5_block_eval md5_init_def)

lemma block_m4_5_hour_2:
  "md5_block (0xf00692d3, 0xbdd73a92, 0xfa4573f5, 0x5ff7f663)
     [0x75, 0x72, 0x2e, 0x67, 0x65, 0x6f, 0x6a, 0x73, 0x6f, 0x6e, 0x80, 0x00, 0x00, 0x00, 0x00, 0x00,
     0x00, 0x00, 0x00, 0x00, 0x00, 0x00, 0x00, 0x00, 0x00, 0x00, 0x00, 0x00, 0x00, 0x00, 0x00, 0x00,
     0x00, 0x00, 0x00, 0x00, 0x00, 0x00, 0x00, 0x00, 0x00, 0x00, 0x00, 0x00, 0x00, 0x00, 0x00, 0x00,
     0x00, 0x00, 0x00, 0x00, 0x00, 0x00, 0x00, 0x00, 0x50, 0x02, 0x00, 0x00, 0x00, 0x00, 0x00, 0x00] =
     (0x41cf8e7c, 0xe14900e8, 0x1e7b8b4b, 0x69539c91)"
  by (simp add: md5_block_eval)

lemma digest_m4_5_hour:
  "md5_hex ''https://earthquake.usgs.gov/earthquakes/feed/v1.0/summary/4.5_hour.geojson'' =
     ''7c8ecf41e80049e14b8b7b1e919c5369''"
  by (simp add: md5_hex_def md5_digest_def blocks_m4_5_hour block_m4_5_hour_1 block_m4_5_hour_2
        le_bytes4_def hexdigest_def hex_byte_def hex_digit_def)

lemma blocks_m4_5_day:
  "md5_blocks (md5_pad (encode
     ''https://earthquake.usgs.gov/earthquakes/feed/v1.0/summary/4.5_day.geojson'')) =
     [[0x68, 0x74, 0x74, 0x70, 0x73, 0x3a, 0x2f, 0x2f, 0x65, 0x61, 0x72, 0x74, 0x68, 0x71, 0x75, 0x61,
      0x6b, 0x65, 0x2e, 0x75, 0x73, 0x67, 0x73, 0x2e, 0x67, 0x6f, 0x76, 0x2f, 0x65, 0x61, 0x72, 0x74,
      0x68, 0x71, 0x75, 0x61, 0x6b, 0x65, 0x73, 0x2f, 0x66, 0x65, 0x65, 0x64, 0x2f, 0x76, 0x31, 0x2e,
      0x30, 0x2f, 0x73, 0x75, 0x6d, 0x6d, 0x61, 0x72, 0x79, 0x2f, 0x34, 0x2e, 0x35, 0x5f, 0x64, 0x61],
      [0x79, 0x2e, 0x67, 0x65, 0x6f, 0x6a, 0x73, 0x6f, 0x6e, 0x80, 0x00, 0x00, 0x00, 0x00, 0x00, 0x00,
      0x00, 0x00, 0x00, 0x00, 0x00, 0x00, 0x00, 0x00, 0x00, 0x00, 0x00, 0x00, 0x00, 0x00, 0x00, 0x00,
      0x00, 0x00, 0x00, 0x00, 0x00, 0x00, 0x00, 0x00, 0x00, 0x00, 0x00, 0x00, 0x00, 0x00, 0x00, 0x00,
      0x00, 0x00, 0x00, 0x00, 0x00, 0x00, 0x00, 0x00, 0x48, 0x02, 0x00, 0x00, 0x00, 0x00, 0x00, 0x00]]"
  by (simp add: md5_pad_def encode_def md5_blocks.simps le_bytes8_def replicate_numeral_unfold)

lemma block_m4_5_day_1:
  "md5_block md5_init
     [0x68, 0x74, 0x74, 0x70, 0x73, 0x3a, 0x2f, 0x2f, 0x65, 0x61, 0x72, 0x74, 0x68, 0x71, 0x75, 0x61,
     0x6b, 0x65, 0x2e, 0x75, 0x73, 0x67, 0x73, 0x2e, 0x67, 0x6f, 0x76, 0x2f, 0x65, 0x61, 0x72, 0x74,
     0x68, 0x71, 0x75, 0x61, 0x6b, 0x65, 0x73, 0x2f, 0x66, 0x65, 0x65, 0x64, 0x2f, 0x76, 0x31, 0x2e,
     0x30, 0x2f, 0x73, 0x75, 0x6d, 0x6d, 0x61, 0x72, 0x79, 0x2f, 0x34, 0x2e, 0x35, 0x5f, 0x64, 0x61] =
     (0x26b1a989, 0x3be755e2, 0xcee6f189, 0xfd96c725)"
  by (simp add: md5_block_eval md5_init_def)

lemma block_m4_5_day_2:
  "md5_block (0x26b1a989, 0x3be755e2, 0xcee6f189, 0xfd96c725)
     [0x79, 0x2e, 0x67, 0x65, 0x6f, 0x6a, 0x73, 0x6f, 0x6e, 0x80, 0x00, 0x00, 0x00, 0x00, 0x00, 0x00,
     0x00, 0x00, 0x00, 0x00, 0x00, 0x00, 0x00, 0x00, 0x00, 0x00, 0x00, 0x00, 0x00, 0x00, 0x00, 0x00,
     0x00, 0x00, 0x00, 0x00, 0x00, 0x00, 0x00, 0x00, 0x00, 0x00, 0x00, 0x00, 0x00, 0x00, 0x00, 0x00,
     0x00, 0x00, 0x00, 0x00, 0x00, 0x00, 0x00, 0x00, 0x48, 0x02, 0x00, 0x00, 0x00, 0x00, 0x00, 0x00] =
     (0xa329fe52, 0x8d23c3c3, 0x27758081, 0x272ef3e9)"
  by (simp add: md5_block_eval)

lemma digest_m4_5_day:
  "md5_hex ''https://earthquake.usgs.gov/earthquakes/feed/v1.0/summary/4.5_day.geojson'' =
     ''52fe29a3c3c3238d81807527e9f32e27''"
  by (simp add: md5_hex_def md5_digest_def blocks_m4_5_day block_m4_5_day_1 block_m4_5_day_2
        le_bytes4_def hexdigest_def hex_byte_def hex_digit_def)

lemma blocks_m4_5_week:
  "md5_blocks (md5_pad (encode
     ''https://earthquake.usgs.gov/earthquakes/feed/v1.0/summary/4.5_week.geojson'')) =
     [[0x68, 0x74, 0x74, 0x70, 0x73, 0x3a, 0x2f, 0x2f, 0x65, 0x61, 0x72, 0x74, 0x68, 0x71, 0x75, 0x61,
      0x6b, 0x65, 0x2e, 0x75, 0x73, 0x67, 0x73, 0x2e, 0x67, 0x6f, 0x76, 0x2f, 0x65, 0x61, 0x72, 0x74,
      0x68, 0x71, 0x75, 0x61, 0x6b, 0x65, 0x73, 0x2f, 0x66, 0x65, 0x65, 0x64, 0x2f, 0x76, 0x31, 0x2e,
      0x30, 0x2f, 0x73, 0x75, 0x6d, 0x6d, 0x61, 0x72, 0x79, 0x2f, 0x34, 0x2e, 0x35, 0x5f, 0x77, 0x65],
      [0x65, 0x6b, 0x2e, 0x67, 0x65, 0x6f, 0x6a, 0x73, 0x6f, 0x6e, 0x80, 0x00, 0x00, 0x00, 0x00, 0x00,
      0x00, 0x00, 0x00, 0x00, 0x00, 0x00, 0x00, 0x00, 0x00, 0x00, 0x00, 0x00, 0x00, 0x00, 0x00, 0x00,
      0x00, 0x00, 0x00, 0x00, 0x00, 0x00, 0x00, 0x00, 0x00, 0x00, 0x00, 0x00, 0x00, 0x00, 0x00, 0x00,
      0x00, 0x00, 0x00, 0x00, 0x00, 0x00, 0x00, 0x00, 0x50, 0x02, 0x00, 0x00, 0x00, 0x00, 0x00, 0x00]]"
  by (simp add: md5_pad_def encode_def md5_blocks.simps le_bytes8_def replicate_numeral_unfold)

lemma block_m4_5_week_1:
  "md5_block md5_init
     [0x68, 0x74, 0x74, 0x70, 0x73, 0x3a, 0x2f, 0x2f, 0x65, 0x61, 0x72, 0x74, 0x68, 0x71, 0x75, 0x61,
     0x6b, 0x65, 0x2e, 0x75, 0x73, 0x67, 0x73, 0x2e, 0x67, 0x6f, 0x76, 0x2f, 0x65, 0x61, 0x72, 0x74,
     0x68, 0x71, 0x75, 0x61, 0x6b, 0x65, 0x73, 0x2f, 0x66, 0x65, 0x65, 0x64, 0x2f, 0x76, 0x31, 0x2e,
     0x30, 0x2f, 0x73, 0x75, 0x6d, 0x6d, 0x61, 0x72, 0x79, 0x2f, 0x34, 0x2e, 0x35, 0x5f, 0x77, 0x65] =
     (0x261c2b4b, 0x4445b854, 0x8998eb15, 0x9b6c96e2)"
  by (simp add: md5_block_eval md5_init_def)

lemma block_m4_5_week_2:
  "md5_block (0x261c2b4b, 0x4445b854, 0x8998eb15, 0x9b6c96e2)
     [0x65, 0x6b, 0x2e, 0x67, 0x65, 0x6f, 0x6a, 0x73, 0x6f, 0x6e, 0x80, 0x00, 0x00, 0x00, 0x00, 0x00,
     0x00, 0x00, 0x00, 0x00, 0x00, 0x00, 0x00, 0x00, 0x00, 0x00, 0x00, 0x00, 0x00, 0x00, 0x00, 0x00,
     0x00, 0x00, 0x00, 0x00, 0x00, 0x00, 0x00, 0x00, 0x00, 0x00, 0x00, 0x00, 0x00, 0x00, 0x00, 0x00,
     0x00, 0x00, 0x00, 0x00, 0x00, 0x00, 0x00, 0x00, 0x50, 0x02, 0x00, 0x00, 0x00, 0x00, 0x00, 0x00] =
     (0x9b536fd6, 0x2e7415ea, 0xabb7c3f8, 0x9448e0f7)"
  by (simp add: md5_block_eval)

lemma digest_m4_5_week:
  "md5_hex ''https://earthquake.usgs.gov/earthquakes/feed/v1.0/summary/4.5_week.geojson'' =
     ''d66f539bea15742ef8c3b7abf7e04894''"
  by (simp add: md5_hex_def md5_digest_def blocks_m4_5_week block_m4_5_week_1 block_m4_5_week_2
        le_bytes4_def hexdigest_def hex_byte_def hex_digit_def)

lemma blocks_m4_5_month:
  "md5_blocks (md5_pad (encode
     ''https://earthquake.usgs.gov/earthquakes/feed/v1.0/summary/4.5_month.geojson'')) =
     [[0x68, 0x74, 0x74, 0x70, 0x73, 0x3a, 0x2f, 0x2f, 0x65, 0x61, 0x72, 0x74, 0x68, 0x71, 0x75, 0x61,
      0x6b, 0x65, 0x2e, 0x75, 0x73, 0x67, 0x73, 0x2e, 0x67, 0x6f, 0x76, 0x2f, 0x65, 0x61, 0x72, 0x74,
      0x68, 0x71, 0x75, 0x61, 0x6b, 0x65, 0x73, 0x2f, 0x66, 0x65, 0x65, 0x64, 0x2f, 0x76, 0x31, 0x2e,
      0x30, 0x2f, 0x73, 0x75, 0x6d, 0x6d, 0x61, 0x72, 0x79, 0x2f, 0x34, 0x2e, 0x35, 0x5f, 0x6d, 0x6f],
      [0x6e, 0x74, 0x68, 0x2e, 0x67, 0x65, 0x6f, 0x6a, 0x73, 0x6f, 0x6e, 0x80, 0x00, 0x00, 0x00, 0x00,
      0x00, 0x00, 0x00, 0x00, 0x00, 0x00, 0x00, 0x00, 0x00, 0x00, 0x00, 0x00, 0x00, 0x00, 0x00, 0x00,
      0x00, 0x00, 0x00, 0x00, 0x00, 0x00, 0x00, 0x00, 0x00, 0x00, 0x00, 0x00, 0x00, 0x00, 0x00, 0x00,
      0x00, 0x00, 0x00, 0x00, 0x00, 0x00, 0x00, 0x00, 0x58, 0x02, 0x00, 0x00, 0x00, 0x00, 0x00, 0x00]]"
  by (simp add: md5_pad_def encode_def md5_blocks.simps le_bytes8_def replicate_numeral_unfold)

lemma block_m4_5_month_1:
  "md5_block md5_init
     [0x68, 0x74, 0x74, 0x70, 0x73, 0x3a, 0x2f, 0x2f, 0x65, 0x61, 0x72, 0x74, 0x68, 0x71, 0x75, 0x61,
     0x6b, 0x65, 0x2e, 0x75, 0x73, 0x67, 0x73, 0x2e, 0x67, 0x6f, 0x76, 0x2f, 0x65, 0x61, 0x72, 0x74,
     0x68, 0x71, 0x75, 0x61, 0x6b, 0x65, 0x73, 0x2f, 0x66, 0x65, 0x65, 0x64, 0x2f, 0x76, 0x31, 0x2e,
     0x30, 0x2f, 0x73, 0x75, 0x6d, 0x6d, 0x61, 0x72, 0x79, 0x2f, 0x34, 0x2e, 0x35, 0x5f, 0x6d, 0x6f] =
     (0xa313c672, 0x8b228de9, 0x0ccfeb89, 0xbeb14e26)"
  by (simp add: md5_block_eval md5_init_def)

lemma block_m4_5_month_2:
  "md5_block (0xa313c672, 0x8b228de9, 0x0ccfeb89, 0xbeb14e26)
     [0x6e, 0x74, 0x68, 0x2e, 0x67, 0x65, 0x6f, 0x6a, 0x73, 0x6f, 0x6e, 0x80, 0x00, 0x00, 0x00, 0x00,
     0x00, 0x00, 0x00, 0x00, 0x00, 0x00, 0x00, 0x00, 0x00, 0x00, 0x00, 0x00, 0x00, 0x00, 0x00, 0x00,
     0x00, 0x00, 0x00, 0x00, 0x00, 0x00, 0x00, 0x00, 0x00, 0x00, 0x00, 0x00, 0x00, 0x00, 0x00, 0x00,
     0x00, 0x00, 0x00, 0x00, 0x00, 0x00, 0x00, 0x00, 0x58, 0x02, 0x00, 0x00, 0x00, 0x00, 0x00, 0x00] =
     (0x43ac7c72, 0x8860ff5a, 0x10513e9d, 0x3f0ae9ac)"
  by (simp add: md5_block_eval)

lemma digest_m4_5_month:
  "md5_hex ''https://earthquake.usgs.gov/earthquakes/feed/v1.0/summary/4.5_month.geojson'' =
     ''727cac435aff60889d3e5110ace90a3f''"
  by (simp add: md5_hex_def md5_digest_def blocks_m4_5_month block_m4_5_month_1 block_m4_5_month_2
        le_bytes4_def hexdigest_def hex_byte_def hex_digit_def)

lemma blocks_m2_5_hour:
  "md5_blocks (md5_pad (encode
     ''https://earthquake.usgs.gov/earthquakes/feed/v1.0/summary/2.5_hour.geojson'')) =
     [[0x68, 0x74, 0x74, 0x70, 0x73, 0x3a, 0x2f, 0x2f, 0x65, 0x61, 0x72, 0x74, 0x68, 0x71, 0x75, 0x61,
      0x6b, 0x65, 0x2e, 0x75, 0x73, 0x67, 0x73, 0x2e, 0x67, 0x6f, 0x76, 0x2f, 0x65, 0x61, 0x72, 0x74,
      0x68, 0x71, 0x75, 0x61, 0x6b, 0x65, 0x73, 0x2f, 0x66, 0x65, 0x65, 0x64, 0x2f, 0x76, 0x31, 0x2e,
      0x30, 0x2f, 0x73, 0x75, 0x6d, 0x6d, 0x61, 0x72, 0x79, 0x2f, 0x32, 0x2e, 0x35, 0x5f, 0x68, 0x6f],
      [0x75, 0x72, 0x2e, 0x67, 0x65, 0x6f, 0x6a, 0x73, 0x6f, 0x6e, 0x80, 0x00, 0x00, 0x00, 0x00, 0x00,
      0x00, 0x00, 0x00, 0x00, 0x00, 0x00, 0x00, 0x00, 0x00, 0x00, 0x00, 0x00, 0x00, 0x00, 0x00, 0x00,
      0x00, 0x00, 0x00, 0x00, 0x00, 0x00, 0x00, 0x00, 0x00, 0x00, 0x00, 0x00, 0x00, 0x00, 0x00, 0x00,
      0x00, 0x00, 0x00, 0x00, 0x00, 0x00, 0x00, 0x00, 0x50, 0x02, 0x00, 0x00, 0x00, 0x00, 0x00, 0x00]]"
  by (simp add: md5_pad_def encode_def md5_blocks.simps le_bytes8_def replicate_numeral_unfold)

lemma block_m2_5_hour_1:
  "md5_block md5_init
     [0x68, 0x74, 0x74, 0x70, 0x73, 0x3a, 0x2f, 0x2f, 0x65, 0x61, 0x72, 0x74, 0x68, 0x71, 0x75, 0x61,
     0x6b, 0x65, 0x2e, 0x75, 0x73, 0x67, 0x73, 0x2e, 0x67, 0x6f, 0x76, 0x2f, 0x65, 0x61, 0x72, 0x74,
     0x68, 0x71, 0x75, 0x61, 0x6b, 0x65, 0x73, 0x2f, 0x66, 0x65, 0x65, 0x64, 0x2f, 0x76, 0x31, 0x2e,
     0x30, 0x2f, 0x73, 0x75, 0x6d, 0x6d, 0x61, 0x72, 0x79, 0x2f, 0x32, 0x2e, 0x35, 0x5f, 0x68, 0x6f] =
     (0xfc587aff, 0xa71d0aec, 0x9caf638c, 0x14abe417)"
  by (simp add: md5_block_eval md5_init_def)

lemma block_m2_5_hour_2:
  "md5_block (0xfc587aff, 0xa71d0aec, 0x9caf638c, 0x14abe417)
     [0x75, 0x72, 0x2e, 0x67, 0x65, 0x6f, 0x6a, 0x73, 0x6f, 0x6e, 0x80, 0x00, 0x00, 0x00, 0x00, 0x00,
     0x00, 0x00, 0x00, 0x00, 0x00, 0x00, 0x00, 0x00, 0x00, 0x00, 0x00, 0x00, 0x00, 0x00, 0x00, 0x00,
     0x00, 0x00, 0x00, 0x00, 0x00, 0x00, 0x00, 0x00, 0x00, 0x00, 0x00, 0x00, 0x00, 0x00, 0x00, 0x00,
     0x00, 0x00, 0x00, 0x00, 0x00, 0x00, 0x00, 0x00, 0x50, 0x02, 0x00, 0x00, 0x00, 0x00, 0x00, 0x00] =
     (0xa8e469c0, 0x835709e0, 0x730ea618, 0x35dee919)"
  by (simp add: md5_block_eval)

lemma digest_m2_5_hour:
  "md5_hex ''https://earthquake.usgs.gov/earthquakes/feed/v1.0/summary/2.5_hour.geojson'' =
     ''c069e4a8e009578318a60e7319e9de35''"
  by (simp add: md5_hex_def md5_digest_def blocks_m2_5_hour block_m2_5_hour_1 block_m2_5_hour_2
        le_bytes4_def hexdigest_def hex_byte_def hex_digit_def)

lemma blocks_m2_5_day:
  "md5_blocks (md5_pad (encode
     ''https://earthquake.usgs.gov/earthquakes/feed/v1.0/summary/2.5_day.geojson'')) =
     [[0x68, 0x74, 0x74, 0x70, 0x73, 0x3a, 0x2f, 0x2f, 0x65, 0x61, 0x72, 0x74, 0x68, 0x71, 0x75, 0x61,
      0x6b, 0x65, 0x2e, 0x75, 0x73, 0x67, 0x73, 0x2e, 0x67, 0x6f, 0x76, 0x2f, 0x65, 0x61, 0x72, 0x74,
      0x68, 0x71, 0x75, 0x61, 0x6b, 0x65, 0x73, 0x2f, 0x66, 0x65, 0x65, 0x64, 0x2f, 0x76, 0x31, 0x2e,
      0x30, 0x2f, 0x73, 0x75, 0x6d, 0x6d, 0x61, 0x72, 0x79, 0x2f, 0x32, 0x2e, 0x35, 0x5f, 0x64, 0x61],
      [0x79, 0x2e, 0x67, 0x65, 0x6f, 0x6a, 0x73, 0x6f, 0x6e, 0x80, 0x00, 0x00, 0x00, 0x00, 0x00, 0x00,
      0x00, 0x00, 0x00, 0x00, 0x00, 0x00, 0x00, 0x00, 0x00, 0x00, 0x00, 0x00, 0x00, 0x00, 0x00, 0x00,
      0x00, 0x00, 0x00, 0x00, 0x00, 0x00, 0x00, 0x00, 0x00, 0x00, 0x00, 0x00, 0x00, 0x00, 0x00, 0x00,
      0x00, 0x00, 0x00, 0x00, 0x00, 0x00, 0x00, 0x00, 0x48, 0x02, 0x00, 0x00, 0x00, 0x00, 0x00, 0x00]]"
  by (simp add: md5_pad_def encode_def md5_blocks.simps le_bytes8_def replicate_numeral_unfold)

lemma block_m2_5_day_1:
  "md5_block md5_init
     [0x68, 0x74, 0x74, 0x70, 0x73, 0x3a, 0x2f, 0x2f, 0x65, 0x61, 0x72, 0x74, 0x68, 0x71, 0x75, 0x61,
     0x6b, 0x65, 0x2e, 0x75, 0x73, 0x67, 0x73, 0x2e, 0x67, 0x6f, 0x76, 0x2f, 0x65, 0x61, 0x72, 0x74,
     0x68, 0x71, 0x75, 0x61, 0x6b, 0x65, 0x73, 0x2f, 0x66, 0x65, 0x65, 0x64, 0x2f, 0x76, 0x31, 0x2e,
     0x30, 0x2f, 0x73, 0x75, 0x6d, 0x6d, 0x61, 0x72, 0x79, 0x2f, 0x32, 0x2e, 0x35, 0x5f, 0x64, 0x61] =
     (0x6e644d7b, 0xc719e522, 0x1a34d13c, 0x4d6af479)"
  by (simp add: md5_block_eval md5_init_def)

lemma block_m2_5_day_2:
  "md5_block (0x6e644d7b, 0xc719e522, 0x1a34d13c, 0x4d6af479)
     [0x79, 0x2e, 0x67, 0x65, 0x6f, 0x6a, 0x73, 0x6f, 0x6e, 0x80, 0x00, 0x00, 0x00, 0x00, 0x00, 0x00,
     0x00, 0x00, 0x00, 0x00, 0x00, 0x00, 0x00, 0x00, 0x00, 0x00, 0x00, 0x00, 0x00, 0x00, 0x00, 0x00,
     0x00, 0x00, 0x00, 0x00, 0x00, 0x00, 0x00, 0x00, 0x00, 0x00, 0x00, 0x00, 0x00, 0x00, 0x00, 0x00,
     0x00, 0x00, 0x00, 0x00, 0x00, 0x00, 0x00, 0x00, 0x48, 0x02, 0x00, 0x00, 0x00, 0x00, 0x00, 0x00] =
     (0xe5bafcc4, 0xd3037daf, 0xcb04887e, 0x02b845b4)"
  by (simp add: md5_block_eval)

lemma digest_m2_5_day:
  "md5_hex ''https://earthquake.usgs.gov/earthquakes/feed/v1.0/summary/2.5_day.geojson'' =
     ''c4fcbae5af7d03d37e8804cbb445b802''"
  by (simp add: md5_hex_def md5_digest_def blocks_m2_5_day block_m2_5_day_1 block_m2_5_day_2
        le_bytes4_def hexdigest_def hex_byte_def hex_digit_def)

lemma blocks_m2_5_week:
  "md5_blocks (md5_pad (encode
     ''https://earthquake.usgs.gov/earthquakes/feed/v1.0/summary/2.5_week.geojson'')) =
     [[0x68, 0x74, 0x74, 0x70, 0x73, 0x3a, 0x2f, 0x2f, 0x65, 0x61, 0x72, 0x74, 0x68, 0x71, 0x75, 0x61,
      0x6b, 0x65, 0x2e, 0x75, 0x73, 0x67, 0x73, 0x2e, 0x67, 0x6f, 0x76, 0x2f, 0x65, 0x61, 0x72, 0x74,
      0x68, 0x71, 0x75, 0x61, 0x6b, 0x65, 0x73, 0x2f, 0x66, 0x65, 0x65, 0x64, 0x2f, 0x76, 0x31, 0x2e,
      0x30, 0x2f, 0x73, 0x75, 0x6d, 0x6d, 0x61, 0x72, 0x79, 0x2f, 0x32, 0x2e, 0x35, 0x5f, 0x77, 0x65],
      [0x65, 0x6b, 0x2e, 0x67, 0x65, 0x6f, 0x6a, 0x73, 0x6f, 0x6e, 0x80, 0x00, 0x00, 0x00, 0x00, 0x00,
      0x00, 0x00, 0x00, 0x00, 0x00, 0x00, 0x00, 0x00, 0x00, 0x00, 0x00, 0x00, 0x00, 0x00, 0x00, 0x00,
      0x00, 0x00, 0x00, 0x00, 0x00, 0x00, 0x00, 0x00, 0x00, 0x00, 0x00, 0x00, 0x00, 0x00, 0x00, 0x00,
      0x00, 0x00, 0x00, 0x00, 0x00, 0x00, 0x00, 0x00, 0x50, 0x02, 0x00, 0x00, 0x00, 0x00, 0x00, 0x00]]"
  by (simp add: md5_pad_def encode_def md5_blocks.simps le_bytes8_def replicate_numeral_unfold)

lemma block_m2_5_week_1:
  "md5_block md5_init
     [0x68, 0x74, 0x74, 0x70, 0x73, 0x3a, 0x2f, 0x2f, 0x65, 0x61, 0x72, 0x74, 0x68, 0x71, 0x75, 0x61,
     0x6b, 0x65, 0x2e, 0x75, 0x73, 0x67, 0x73, 0x2e, 0x67, 0x6f, 0x76, 0x2f, 0x65, 0x61, 0x72, 0x74,
     0x68, 0x71, 0x75, 0x61, 0x6b, 0x65, 0x73, 0x2f, 0x66, 0x65, 0x65, 0x64, 0x2f, 0x76, 0x31, 0x2e,
     0x30, 0x2f, 0x73, 0x75, 0x6d, 0x6d, 0x61, 0x72, 0x79, 0x2f, 0x32, 0x2e, 0x35, 0x5f, 0x77, 0x65] =
     (0xcb092d8b, 0x23f087af, 0x242c932a, 0x56d12abe)"
  by (simp add: md5_block_eval md5_init_def)

lemma block_m2_5_week_2:
  "md5_block (0xcb092d8b, 0x23f087af, 0x242c932a, 0x56d12abe)
     [0x65, 0x6b, 0x2e, 0x67, 0x65, 0x6f, 0x6a, 0x73, 0x6f, 0x6e, 0x80, 0x00, 0x00, 0x00, 0x00, 0x00,
     0x00, 0x00, 0x00, 0x00, 0x00, 0x00, 0x00, 0x00, 0x00, 0x00, 0x00, 0x00, 0x00, 0x00, 0x00, 0x00,
     0x00, 0x00, 0x00, 0x00, 0x00, 0x00, 0x00, 0x00, 0x00, 0x00, 0x00, 0x00, 0x00, 0x00, 0x00, 0x00,
     0x00, 0x00, 0x00, 0x00, 0x00, 0x00, 0x00, 0x00, 0x50, 0x02, 0x00, 0x00, 0x00, 0x00, 0x00, 0x00] =
     (0x70f1c37c, 0x1aa79a94, 0x4db474e9, 0x10416b2a)"
  by (simp add: md5_block_eval)

lemma digest_m2_5_week:
  "md5_hex ''https://earthquake.usgs.gov/earthquakes/feed/v1.0/summary/2.5_week.geojson'' =
     ''7cc3f170949aa71ae974b44d2a6b4110''"
  by (simp add: md5_hex_def md5_digest_def blocks_m2_5_week block_m2_5_week_1 block_m2_5_week_2
        le_bytes4_def hexdigest_def hex_byte_def hex_digit_def)

lemma blocks_m2_5_month:
  "md5_blocks (md5_pad (encode
     ''https://earthquake.usgs.gov/earthquakes/feed/v1.0/summary/2.5_month.geojson'')) =
     [[0x68, 0x74, 0x74, 0x70, 0x73, 0x3a, 0x2f, 0x2f, 0x65, 0x61, 0x72, 0x74, 0x68, 0x71, 0x75, 0x61,
      0x6b, 0x65, 0x2e, 0x75, 0x73, 0x67, 0x73, 0x2e, 0x67, 0x6f, 0x76, 0x2f, 0x65, 0x61, 0x72, 0x74,
      0x68, 0x71, 0x75, 0x61, 0x6b, 0x65, 0x73, 0x2f, 0x66, 0x65, 0x65, 0x64, 0x2f, 0x76, 0x31, 0x2e,
      0x30, 0x2f, 0x73, 0x75, 0x6d, 0x6d, 0x61, 0x72, 0x79, 0x2f, 0x32, 0x2e, 0x35, 0x5f, 0x6d, 0x6f],
      [0x6e, 0x74, 0x68, 0x2e, 0x67, 0x65, 0x6f, 0x6a, 0x73, 0x6f, 0x6e, 0x80, 0x00, 0x00, 0x00, 0x00,
      0x00, 0x00, 0x00, 0x00, 0x00, 0x00, 0x00, 0x00, 0x00, 0x00, 0x00, 0x00, 0x00, 0x00, 0x00, 0x00,
      0x00, 0x00, 0x00, 0x00, 0x00, 0x00, 0x00, 0x00, 0x00, 0x00, 0x00, 0x00, 0x00, 0x00, 0x00, 0x00,
      0x00, 0x00, 0x00, 0x00, 0x00, 0x00, 0x00, 0x00, 0x58, 0x02, 0x00, 0x00, 0x00, 0x00, 0x00, 0x00]]"
  by (simp add: md5_pad_def encode_def md5_blocks.simps le_bytes8_def replicate_numeral_unfold)

lemma block_m2_5_month_1:
  "md5_block md5_init
     [0x68, 0x74, 0x74, 0x70, 0x73, 0x3a, 0x2f, 0x2f, 0x65, 0x61, 0x72, 0x74, 0x68, 0x71, 0x75, 0x61,
     0x6b, 0x65, 0x2e, 0x75, 0x73, 0x67, 0x73, 0x2e, 0x67, 0x6f, 0x76, 0x2f, 0x65, 0x61, 0x72, 0x74,
     0x68, 0x71, 0x75, 0x61, 0x6b, 0x65, 0x73, 0x2f, 0x66, 0x65, 0x65, 0x64, 0x2f, 0x76, 0x31, 0x2e,
     0x30, 0x2f, 0x73, 0x75, 0x6d, 0x6d, 0x61, 0x72, 0x79, 0x2f, 0x32, 0x2e, 0x35, 0x5f, 0x6d, 0x6f] =
     (0xc15dc70b, 0xe87c5e1f, 0x02592c47, 0x07f8d765)"
  by (simp add: md5_block_eval md5_init_def)

lemma block_m2_5_month_2:
  "md5_block (0xc15dc70b, 0xe87c5e1f, 0x02592c47, 0x07f8d765)
     [0x6e, 0x74, 0x68, 0x2e, 0x67, 0x65, 0x6f, 0x6a, 0x73, 0x6f, 0x6e, 0x80, 0x00, 0x00, 0x00, 0x00,
     0x00, 0x00, 0x00, 0x00, 0x00, 0x00, 0x00, 0x00, 0x00, 0x00, 0x00, 0x00, 0x00, 0x00, 0x00, 0x00,
     0x00, 0x00, 0x00, 0x00, 0x00, 0x00, 0x00, 0x00, 0x00, 0x00, 0x00, 0x00, 0x00, 0x00, 0x00, 0x00,
     0x00, 0x00, 0x00, 0x00, 0x00, 0x00, 0x00, 0x00, 0x58, 0x02, 0x00, 0x00, 0x00, 0x00, 0x00, 0x00] =
     (0x17b12814, 0x778a38c3, 0xc09bc794, 0x9801d9a6)"
  by (simp add: md5_block_eval)

lemma digest_m2_5_month:
  "md5_hex ''https://earthquake.usgs.gov/earthquakes/feed/v1.0/summary/2.5_month.geojson'' =
     ''1428b117c3388a7794c79bc0a6d90198''"
  by (simp add: md5_hex_def md5_digest_def blocks_m2_5_month block_m2_5_month_1 block_m2_5_month_2
        le_bytes4_def hexdigest_def hex_byte_def hex_digit_def)

lemma blocks_m1_0_hour:
  "md5_blocks (md5_pad (encode
     ''https://earthquake.usgs.gov/earthquakes/feed/v1.0/summary/1.0_hour.geojson'')) =
     [[0x68, 0x74, 0x74, 0x70, 0x73, 0x3a, 0x2f, 0x2f, 0x65, 0x61, 0x72, 0x74, 0x68, 0x71, 0x75, 0x61,
      0x6b, 0x65, 0x2e, 0x75, 0x73, 0x67, 0x73, 0x2e, 0x67, 0x6f, 0x76, 0x2f, 0x65, 0x61, 0x72, 0x74,
      0x68, 0x71, 0x75, 0x61, 0x6b, 0x65, 0x73, 0x2f, 0x66, 0x65, 0x65, 0x64, 0x2f, 0x76, 0x31, 0x2e,
      0x30, 0x2f, 0x73, 0x75, 0x6d, 0x6d, 0x61, 0x72, 0x79, 0x2f, 0x31, 0x2e, 0x30, 0x5f, 0x68, 0x6f],
      [0x75, 0x72, 0x2e, 0x67, 0x65, 0x6f, 0x6a, 0x73, 0x6f, 0x6e, 0x80, 0x00, 0x00, 0x00, 0x00, 0x00,
      0x00, 0x00, 0x00, 0x00, 0x00, 0x00, 0x00, 0x00, 0x00, 0x00, 0x00, 0x00, 0x00, 0x00, 0x00, 0x00,
      0x00, 0x00, 0x00, 0x00, 0x00, 0x00, 0x00, 0x00, 0x00, 0x00, 0x00, 0x00, 0x00, 0x00, 0x00, 0x00,
      0x00, 0x00, 0x00, 0x00, 0x00, 0x00, 0x00, 0x00, 0x50, 0x02, 0x00, 0x00, 0x00, 0x00, 0x00, 0x00]]"
  by (simp add: md5_pad_def encode_def md5_blocks.simps le_bytes8_def replicate_numeral_unfold)

lemma block_m1_0_hour_1:
  "md5_block md5_init
     [0x68, 0x74, 0x74, 0x70, 0x73, 0x3a, 0x2f, 0x2f, 0x65, 0x61, 0x72, 0x74, 0x68, 0x71, 0x75, 0x61,
     0x6b, 0x65, 0x2e, 0x75, 0x73, 0x67, 0x73, 0x2e, 0x67, 0x6f, 0x76, 0x2f, 0x65, 0x61, 0x72, 0x74,
     0x68, 0x71, 0x75, 0x61, 0x6b, 0x65, 0x73, 0x2f, 0x66, 0x65, 0x65, 0x64, 0x2f, 0x76, 0x31, 0x2e,
     0x30, 0x2f, 0x73, 0x75, 0x6d, 0x6d, 0x61, 0x72, 0x79, 0x2f, 0x31, 0x2e, 0x30, 0x5f, 0x68, 0x6f] =
     (0x0db662cc, 0x0adbf535, 0x67ab2b04, 0x0619db1f)"
  by (simp add: md5_block_eval md5_init_def)

lemma block_m1_0_hour_2:
  "md5_block (0x0db662cc, 0x0adbf535, 0x67ab2b04, 0x0619db1f)
     [0x75, 0x72, 0x2e, 0x67, 0x65, 0x6f, 0x6a, 0x73, 0x6f, 0x6e, 0x80, 0x00, 0x00, 0x00, 0x00, 0x00,
     0x00, 0x00, 0x00, 0x00, 0x00, 0x00, 0x00, 0x00, 0x00, 0x00, 0x00, 0x00, 0x00, 0x00, 0x00, 0x00,
     0x00, 0x00, 0x00, 0x00, 0x00, 0x00, 0x00, 0x00, 0x00, 0x00, 0x00, 0x00, 0x00, 0x00, 0x00, 0x00,
     0x00, 0x00, 0x00, 0x00, 0x00, 0x00, 0x00, 0x00, 0x50, 0x02, 0x00, 0x00, 0x00, 0x00, 0x00, 0x00] =
     (0xedc46b75, 0x69fbd40f, 0x11f35e1b, 0x74d43b9a)"
  by (simp add: md5_block_eval)

lemma digest_m1_0_hour:
  "md5_hex ''https://earthquake.usgs.gov/earthquakes/feed/v1.0/summary/1.0_hour.geojson'' =
     ''756bc4ed0fd4fb691b5ef3119a3bd474''"
  by (simp add: md5_hex_def md5_digest_def blocks_m1_0_hour block_m1_0_hour_1 block_m1_0_hour_2
        le_bytes4_def hexdigest_def hex_byte_def hex_digit_def)

lemma blocks_m1_0_day:
  "md5_blocks (md5_pad (encode
     ''https://earthquake.usgs.gov/earthquakes/feed/v1.0/summary/1.0_day.geojson'')) =
     [[0x68, 0x74, 0x74, 0x70, 0x73, 0x3a, 0x2f, 0x2f, 0x65, 0x61, 0x72, 0x74, 0x68, 0x71, 0x75, 0x61,
      0x6b, 0x65, 0x2e, 0x75, 0x73, 0x67, 0x73, 0x2e, 0x67, 0x6f, 0x76, 0x2f, 0x65, 0x61, 0x72, 0x74,
      0x68, 0x71, 0x75, 0x61, 0x6b, 0x65, 0x73, 0x2f, 0x66, 0x65, 0x65, 0x64, 0x2f, 0x76, 0x31, 0x2e,
      0x30, 0x2f, 0x73, 0x75, 0x6d, 0x6d, 0x61, 0x72, 0x79, 0x2f, 0x31, 0x2e, 0x30, 0x5f, 0x64, 0x61],
      [0x79, 0x2e, 0x67, 0x65, 0x6f, 0x6a, 0x73, 0x6f, 0x6e, 0x80, 0x00, 0x00, 0x00, 0x00, 0x00, 0x00,
      0x00, 0x00, 0x00, 0x00, 0x00, 0x00, 0x00, 0x00, 0x00, 0x00, 0x00, 0x00, 0x00, 0x00, 0x00, 0x00,
      0x00, 0x00, 0x00, 0x00, 0x00, 0x00, 0x00, 0x00, 0x00, 0x00, 0x00, 0x00, 0x00, 0x00, 0x00, 0x00,
      0x00, 0x00, 0x00, 0x00, 0x00, 0x00, 0x00, 0x00, 0x48, 0x02, 0x00, 0x00, 0x00, 0x00, 0x00, 0x00]]"
  by (simp add: md5_pad_def encode_def md5_blocks.simps le_bytes8_def replicate_numeral_unfold)

lemma block_m1_0_day_1:
  "md5_block md5_init
     [0x68, 0x74, 0x74, 0x70, 0x73, 0x3a, 0x2f, 0x2f, 0x65, 0x61, 0x72, 0x74, 0x68, 0x71, 0x75, 0x61,
     0x6b, 0x65, 0x2e, 0x75, 0x73, 0x67, 0x73, 0x2e, 0x67, 0x6f, 0x76, 0x2f, 0x65, 0x61, 0x72, 0x74,
     0x68, 0x71, 0x75, 0x61, 0x6b, 0x65, 0x73, 0x2f, 0x66, 0x65, 0x65, 0x64, 0x2f, 0x76, 0x31, 0x2e,
     0x30, 0x2f, 0x73, 0x75, 0x6d, 0x6d, 0x61, 0x72, 0x79, 0x2f, 0x31, 0x2e, 0x30, 0x5f, 0x64, 0x61] =
     (0xf6078370, 0xf55f0857, 0x22bb4c0c, 0x4d848b04)"
  by (simp add: md5_block_eval md5_init_def)

lemma block_m1_0_day_2:
  "md5_block (0xf6078370, 0xf55f0857, 0x22bb4c0c, 0x4d848b04)
     [0x79, 0x2e, 0x67, 0x65, 0x6f, 0x6a, 0x73, 0x6f, 0x6e, 0x80, 0x00, 0x00, 0x00, 0x00, 0x00, 0x00,
     0x00, 0x00, 0x00, 0x00, 0x00, 0x00, 0x00, 0x00, 0x00, 0x00, 0x00, 0x00, 0x00, 0x00, 0x00, 0x00,
     0x00, 0x00, 0x00, 0x00, 0x00, 0x00, 0x00, 0x00, 0x00, 0x00, 0x00, 0x00, 0x00, 0x00, 0x00, 0x00,
     0x00, 0x00, 0x00, 0x00, 0x00, 0x00, 0x00, 0x00, 0x48, 0x02, 0x00, 0x00, 0x00, 0x00, 0x00, 0x00] =
     (0xdb6cbb2a, 0x915fa40a, 0xbdb2d18e, 0x21e2386f)"
  by (simp add: md5_block_eval)

lemma digest_m1_0_day:
  "md5_hex ''https://earthquake.usgs.gov/earthquakes/feed/v1.0/summary/1.0_day.geojson'' =
     ''2abb6cdb0aa45f918ed1b2bd6f38e221''"
  by (simp add: md5_hex_def md5_digest_def blocks_m1_0_day block_m1_0_day_1 block_m1_0_day_2
        le_bytes4_def hexdigest_def hex_byte_def hex_digit_def)

lemma blocks_m1_0_week:
  "md5_blocks (md5_pad (encode
     ''https://earthquake.usgs.gov/earthquakes/feed/v1.0/summary/1.0_week.geojson'')) =
     [[0x68, 0x74, 0x74, 0x70, 0x73, 0x3a, 0x2f, 0x2f, 0x65, 0x61, 0x72, 0x74, 0x68, 0x71, 0x75, 0x61,
      0x6b, 0x65, 0x2e, 0x75, 0x73, 0x67, 0x73, 0x2e, 0x67, 0x6f, 0x76, 0x2f, 0x65, 0x61, 0x72, 0x74,
      0x68, 0x71, 0x75, 0x61, 0x6b, 0x65, 0x73, 0x2f, 0x66, 0x65, 0x65, 0x64, 0x2f, 0x76, 0x31, 0x2e,
      0x30, 0x2f, 0x73, 0x75, 0x6d, 0x6d, 0x61, 0x72, 0x79, 0x2f, 0x31, 0x2e, 0x30, 0x5f, 0x77, 0x65],
      [0x65, 0x6b, 0x2e, 0x67, 0x65, 0x6f, 0x6a, 0x73, 0x6f, 0x6e, 0x80, 0x00, 0x00, 0x00, 0x00, 0x00,
      0x00, 0x00, 0x00, 0x00, 0x00, 0x00, 0x00, 0x00, 0x00, 0x00, 0x00, 0x00, 0x00, 0x00, 0x00, 0x00,
      0x00, 0x00, 0x00, 0x00, 0x00, 0x00, 0x00, 0x00, 0x00, 0x00, 0x00, 0x00, 0x00, 0x00, 0x00, 0x00,
      0x00, 0x00, 0x00, 0x00, 0x00, 0x00, 0x00, 0x00, 0x50, 0x02, 0x00, 0x00, 0x00, 0x00, 0x00, 0x00]]"
  by (simp add: md5_pad_def encode_def md5_blocks.simps le_bytes8_def replicate_numeral_unfold)

lemma block_m1_0_week_1:
  "md5_block md5_init
     [0x68, 0x74, 0x74, 0x70, 0x73, 0x3a, 0x2f, 0x2f, 0x65, 0x61, 0x72, 0x74, 0x68, 0x71, 0x75, 0x61,
     0x6b, 0x65, 0x2e, 0x75, 0x73, 0x67, 0x73, 0x2e, 0x67, 0x6f, 0x76, 0x2f, 0x65, 0x61, 0x72, 0x74,
     0x68, 0x71, 0x75, 0x61, 0x6b, 0x65, 0x73, 0x2f, 0x66, 0x65, 0x65, 0x64, 0x2f, 0x76, 0x31, 0x2e,
     0x30, 0x2f, 0x73, 0x75, 0x6d, 0x6d, 0x61, 0x72, 0x79, 0x2f, 0x31, 0x2e, 0x30, 0x5f, 0x77, 0x65] =
     (0xcac4dbb8, 0x93c4fe25, 0xd15203e5, 0x3464b7e2)"
  by (simp add: md5_block_eval md5_init_def)

lemma block_m1_0_week_2:
  "md5_block (0xcac4dbb8, 0x93c4fe25, 0xd15203e5, 0x3464b7e2)
     [0x65, 0x6b, 0x2e, 0x67, 0x65, 0x6f, 0x6a, 0x73, 0x6f, 0x6e, 0x80, 0x00, 0x00, 0x00, 0x00, 0x00,
     0x00, 0x00, 0x00, 0x00, 0x00, 0x00, 0x00, 0x00, 0x00, 0x00, 0x00, 0x00, 0x00, 0x00, 0x00, 0x00,
     0x00, 0x00, 0x00, 0x00, 0x00, 0x00, 0x00, 0x00, 0x00, 0x00, 0x00, 0x00, 0x00, 0x00, 0x00, 0x00,
     0x00, 0x00, 0x00, 0x00, 0x00, 0x00, 0x00, 0x00, 0x50, 0x02, 0x00, 0x00, 0x00, 0x00, 0x00, 0x00] =
     (0x693a0eb9, 0x5f38d87b, 0x28b9ec57, 0x856a0b3d)"
  by (simp add: md5_block_eval)

lemma digest_m1_0_week:
  "md5_hex ''https://earthquake.usgs.gov/earthquakes/feed/v1.0/summary/1.0_week.geojson'' =
     ''b90e3a697bd8385f57ecb9283d0b6a85''"
  by (simp add: md5_hex_def md5_digest_def blocks_m1_0_week block_m1_0_week_1 block_m1_0_week_2
        le_bytes4_def hexdigest_def hex_byte_def hex_digit_def)

lemma blocks_m1_0_month:
  "md5_blocks (md5_pad (encode
     ''https://earthquake.usgs.gov/earthquakes/feed/v1.0/summary/1.0_month.geojson'')) =
     [[0x68, 0x74, 0x74, 0x70, 0x73, 0x3a, 0x2f, 0x2f, 0x65, 0x61, 0x72, 0x74, 0x68, 0x71, 0x75, 0x61,
      0x6b, 0x65, 0x2e, 0x75, 0x73, 0x67, 0x73, 0x2e, 0x67, 0x6f, 0x76, 0x2f, 0x65, 0x61, 0x72, 0x74,
      0x68, 0x71, 0x75, 0x61, 0x6b, 0x65, 0x73, 0x2f, 0x66, 0x65, 0x65, 0x64, 0x2f, 0x76, 0x31, 0x2e,
      0x30, 0x2f, 0x73, 0x75, 0x6d, 0x6d, 0x61, 0x72, 0x79, 0x2f, 0x31, 0x2e, 0x30, 0x5f, 0x6d, 0x6f],
      [0x6e, 0x74, 0x68, 0x2e, 0x67, 0x65, 0x6f, 0x6a, 0x73, 0x6f, 0x6e, 0x80, 0x00, 0x00, 0x00, 0x00,
      0x00, 0x00, 0x00, 0x00, 0x00, 0x00, 0x00, 0x00, 0x00, 0x00, 0x00, 0x00, 0x00, 0x00, 0x00, 0x00,
      0x00, 0x00, 0x00, 0x00, 0x00, 0x00, 0x00, 0x00, 0x00, 0x00, 0x00, 0x00, 0x00, 0x00, 0x00, 0x00,
      0x00, 0x00, 0x00, 0x00, 0x00, 0x00, 0x00, 0x00, 0x58, 0x02, 0x00, 0x00, 0x00, 0x00, 0x00, 0x00]]"
  by (simp add: md5_pad_def encode_def md5_blocks.simps le_bytes8_def replicate_numeral_unfold)

lemma block_m1_0_month_1:
  "md5_block md5_init
     [0x68, 0x74, 0x74, 0x70, 0x73, 0x3a, 0x2f, 0x2f, 0x65, 0x61, 0x72, 0x74, 0x68, 0x71, 0x75, 0x61,
     0x6b, 0x65, 0x2e, 0x75, 0x73, 0x67, 0x73, 0x2e, 0x67, 0x6f, 0x76, 0x2f, 0x65, 0x61, 0x72, 0x74,
     0x68, 0x71, 0x75, 0x61, 0x6b, 0x65, 0x73, 0x2f, 0x66, 0x65, 0x65, 0x64, 0x2f, 0x76, 0x31, 0x2e,
     0x30, 0x2f, 0x73, 0x75, 0x6d, 0x6d, 0x61, 0x72, 0x79, 0x2f, 0x31, 0x2e, 0x30, 0x5f, 0x6d, 0x6f] =
     (0xc5f8d50d, 0x52dda62b, 0x6da48e3d, 0xc1199b6d)"
  by (simp add: md5_block_eval md5_init_def)

lemma block_m1_0_month_2:
  "md5_block (0xc5f8d50d, 0x52dda62b, 0x6da48e3d, 0xc1199b6d)
     [0x6e, 0x74, 0x68, 0x2e, 0x67, 0x65, 0x6f, 0x6a, 0x73, 0x6f, 0x6e, 0x80, 0x00, 0x00, 0x00, 0x00,
     0x00, 0x00, 0x00, 0x00, 0x00, 0x00, 0x00, 0x00, 0x00, 0x00, 0x00, 0x00, 0x00, 0x00, 0x00, 0x00,
     0x00, 0x00, 0x00, 0x00, 0x00, 0x00, 0x00, 0x00, 0x00, 0x00, 0x00, 0x00, 0x00, 0x00, 0x00, 0x00,
     0x00, 0x00, 0x00, 0x00, 0x00, 0x00, 0x00, 0x00, 0x58, 0x02, 0x00, 0x00, 0x00, 0x00, 0x00, 0x00] =
     (0x70456471, 0x7e565462, 0x592c802c, 0x0a4ccac6)"
  by (simp add: md5_block_eval)

lemma digest_m1_0_month:
  "md5_hex ''https://earthquake.usgs.gov/earthquakes/feed/v1.0/summary/1.0_month.geojson'' =
     ''716445706254567e2c802c59c6ca4c0a''"
  by (simp add: md5_hex_def md5_digest_def blocks_m1_0_month block_m1_0_month_1 block_m1_0_month_2
        le_bytes4_def hexdigest_def hex_byte_def hex_digit_def)

lemma blocks_all_hour:
  "md5_blocks (md5_pad (encode
     ''https://earthquake.usgs.gov/earthquakes/feed/v1.0/summary/all_hour.geojson'')) =
     [[0x68, 0x74, 0x74, 0x70, 0x73, 0x3a, 0x2f, 0x2f, 0x65, 0x61, 0x72, 0x74, 0x68, 0x71, 0x75, 0x61,
      0x6b, 0x65, 0x2e, 0x75, 0x73, 0x67, 0x73, 0x2e, 0x67, 0x6f, 0x76, 0x2f, 0x65, 0x61, 0x72, 0x74,
      0x68, 0x71, 0x75, 0x61, 0x6b, 0x65, 0x73, 0x2f, 0x66, 0x65, 0x65, 0x64, 0x2f, 0x76, 0x31, 0x2e,
      0x30, 0x2f, 0x73, 0x75, 0x6d, 0x6d, 0x61, 0x72, 0x79, 0x2f, 0x61, 0x6c, 0x6c, 0x5f, 0x68, 0x6f],
      [0x75, 0x72, 0x2e, 0x67, 0x65, 0x6f, 0x6a, 0x73, 0x6f, 0x6e, 0x80, 0x00, 0x00, 0x00, 0x00, 0x00,
      0x00, 0x00, 0x00, 0x00, 0x00, 0x00, 0x00, 0x00, 0x00, 0x00, 0x00, 0x00, 0x00, 0x00, 0x00, 0x00,
      0x00, 0x00, 0x00, 0x00, 0x00, 0x00, 0x00, 0x00, 0x00, 0x00, 0x00, 0x00, 0x00, 0x00, 0x00, 0x00,
      0x00, 0x00, 0x00, 0x00, 0x00, 0x00, 0x00, 0x00, 0x50, 0x02, 0x00, 0x00, 0x00, 0x00, 0x00, 0x00]]"
  by (simp add: md5_pad_def encode_def md5_blocks.simps le_bytes8_def replicate_numeral_unfold)

lemma block_all_hour_1:
  "md5_block md5_init
     [0x68, 0x74, 0x74, 0x70, 0x73, 0x3a, 0x2f, 0x2f, 0x65, 0x61, 0x72, 0x74, 0x68, 0x71, 0x75, 0x61,
     0x6b, 0x65, 0x2e, 0x75, 0x73, 0x67, 0x73, 0x2e, 0x67, 0x6f, 0x76, 0x2f, 0x65, 0x61, 0x72, 0x74,
     0x68, 0x71, 0x75, 0x61, 0x6b, 0x65, 0x73, 0x2f, 0x66, 0x65, 0x65, 0x64, 0x2f, 0x76, 0x31, 0x2e,
     0x30, 0x2f, 0x73, 0x75, 0x6d, 0x6d, 0x61, 0x72, 0x79, 0x2f, 0x61, 0x6c, 0x6c, 0x5f, 0x68, 0x6f] =
     (0xa2433bee, 0x1472e436, 0xe932c8f5, 0x46457caf)"
  by (simp add: md5_block_eval md5_init_def)

lemma block_all_hour_2:
  "md5_block (0xa2433bee, 0x1472e436, 0xe932c8f5, 0x46457caf)
     [0x75, 0x72, 0x2e, 0x67, 0x65, 0x6f, 0x6a, 0x73, 0x6f, 0x6e, 0x80, 0x00, 0x00, 0x00, 0x00, 0x00,
     0x00, 0x00, 0x00, 0x00, 0x00, 0x00, 0x00, 0x00, 0x00, 0x00, 0x00, 0x00, 0x00, 0x00, 0x00, 0x00,
     0x00, 0x00, 0x00, 0x00, 0x00, 0x00, 0x00, 0x00, 0x00, 0x00, 0x00, 0x00, 0x00, 0x00, 0x00, 0x00,
     0x00, 0x00, 0x00, 0x00, 0x00, 0x00, 0x00, 0x00, 0x50, 0x02, 0x00, 0x00, 0x00, 0x00, 0x00, 0x00] =
     (0x2349372f, 0x835b89c0, 0x5d0cf2cb, 0x81bba03a)"
  by (simp add: md5_block_eval)

lemma digest_all_hour:
  "md5_hex ''https://earthquake.usgs.gov/earthquakes/feed/v1.0/summary/all_hour.geojson'' =
     ''2f374923c0895b83cbf20c5d3aa0bb81''"
  by (simp add: md5_hex_def md5_digest_def blocks_all_hour block_all_hour_1 block_all_hour_2
        le_bytes4_def hexdigest_def hex_byte_def hex_digit_def)

lemma blocks_all_day:
  "md5_blocks (md5_pad (encode
     ''https://earthquake.usgs.gov/earthquakes/feed/v1.0/summary/all_day.geojson'')) =
     [[0x68, 0x74, 0x74, 0x70, 0x73, 0x3a, 0x2f, 0x2f, 0x65, 0x61, 0x72, 0x74, 0x68, 0x71, 0x75, 0x61,
      0x6b, 0x65, 0x2e, 0x75, 0x73, 0x67, 0x73, 0x2e, 0x67, 0x6f, 0x76, 0x2f, 0x65, 0x61, 0x72, 0x74,
      0x68, 0x71, 0x75, 0x61, 0x6b, 0x65, 0x73, 0x2f, 0x66, 0x65, 0x65, 0x64, 0x2f, 0x76, 0x31, 0x2e,
      0x30, 0x2f, 0x73, 0x75, 0x6d, 0x6d, 0x61, 0x72, 0x79, 0x2f, 0x61, 0x6c, 0x6c, 0x5f, 0x64, 0x61],
      [0x79, 0x2e, 0x67, 0x65, 0x6f, 0x6a, 0x73, 0x6f, 0x6e, 0x80, 0x00, 0x00, 0x00, 0x00, 0x00, 0x00,
      0x00, 0x00, 0x00, 0x00, 0x00, 0x00, 0x00, 0x00, 0x00, 0x00, 0x00, 0x00, 0x00, 0x00, 0x00, 0x00,
      0x00, 0x00, 0x00, 0x00, 0x00, 0x00, 0x00, 0x00, 0x00, 0x00, 0x00, 0x00, 0x00, 0x00, 0x00, 0x00,
      0x00, 0x00, 0x00, 0x00, 0x00, 0x00, 0x00, 0x00, 0x48, 0x02, 0x00, 0x00, 0x00, 0x00, 0x00, 0x00]]"
  by (simp add: md5_pad_def encode_def md5_blocks.simps le_bytes8_def replicate_numeral_unfold)

lemma block_all_day_1:
  "md5_block md5_init
     [0x68, 0x74, 0x74, 0x70, 0x73, 0x3a, 0x2f, 0x2f, 0x65, 0x61, 0x72, 0x74, 0x68, 0x71, 0x75, 0x61,
     0x6b, 0x65, 0x2e, 0x75, 0x73, 0x67, 0x73, 0x2e, 0x67, 0x6f, 0x76, 0x2f, 0x65, 0x61, 0x72, 0x74,
     0x68, 0x71, 0x75, 0x61, 0x6b, 0x65, 0x73, 0x2f, 0x66, 0x65, 0x65, 0x64, 0x2f, 0x76, 0x31, 0x2e,
     0x30, 0x2f, 0x73, 0x75, 0x6d, 0x6d, 0x61, 0x72, 0x79, 0x2f, 0x61, 0x6c, 0x6c, 0x5f, 0x64, 0x61] =
     (0xd216f5e9, 0xb7c7d019, 0x3e677f37, 0x86240440)"
  by (simp add: md5_block_eval md5_init_def)

lemma block_all_day_2:
  "md5_block (0xd216f5e9, 0xb7c7d019, 0x3e677f37, 0x86240440)
     [0x79, 0x2e, 0x67, 0x65, 0x6f, 0x6a, 0x73, 0x6f, 0x6e, 0x80, 0x00, 0x00, 0x00, 0x00, 0x00, 0x00,
     0x00, 0x00, 0x00, 0x00, 0x00, 0x00, 0x00, 0x00, 0x00, 0x00, 0x00, 0x00, 0x00, 0x00, 0x00, 0x00,
     0x00, 0x00, 0x00, 0x00, 0x00, 0x00, 0x00, 0x00, 0x00, 0x00, 0x00, 0x00, 0x00, 0x00, 0x00, 0x00,
     0x00, 0x00, 0x00, 0x00, 0x00, 0x00, 0x00, 0x00, 0x48, 0x02, 0x00, 0x00, 0x00, 0x00, 0x00, 0x00] =
     (0x73ef9d9e, 0x07781c7e, 0xca698ffa, 0x3e151b79)"
  by (simp add: md5_block_eval)

lemma digest_all_day:
  "md5_hex ''https://earthquake.usgs.gov/earthquakes/feed/v1.0/summary/all_day.geojson'' =
     ''9e9def737e1c7807fa8f69ca791b153e''"
  by (simp add: md5_hex_def md5_digest_def blocks_all_day block_all_day_1 block_all_day_2
        le_bytes4_def hexdigest_def hex_byte_def hex_digit_def)

lemma blocks_all_week:
  "md5_blocks (md5_pad (encode
     ''https://earthquake.usgs.gov/earthquakes/feed/v1.0/summary/all_week.geojson'')) =
     [[0x68, 0x74, 0x74, 0x70, 0x73, 0x3a, 0x2f, 0x2f, 0x65, 0x61, 0x72, 0x74, 0x68, 0x71, 0x75, 0x61,
      0x6b, 0x65, 0x2e, 0x75, 0x73, 0x67, 0x73, 0x2e, 0x67, 0x6f, 0x76, 0x2f, 0x65, 0x61, 0x72, 0x74,
      0x68, 0x71, 0x75, 0x61, 0x6b, 0x65, 0x73, 0x2f, 0x66, 0x65, 0x65, 0x64, 0x2f, 0x76, 0x31, 0x2e,
      0x30, 0x2f, 0x73, 0x75, 0x6d, 0x6d, 0x61, 0x72, 0x79, 0x2f, 0x61, 0x6c, 0x6c, 0x5f, 0x77, 0x65],
      [0x65, 0x6b, 0x2e, 0x67, 0x65, 0x6f, 0x6a, 0x73, 0x6f, 0x6e, 0x80, 0x00, 0x00, 0x00, 0x00, 0x00,
      0x00, 0x00, 0x00, 0x00, 0x00, 0x00, 0x00, 0x00, 0x00, 0x00, 0x00, 0x00, 0x00, 0x00, 0x00, 0x00,
      0x00, 0x00, 0x00, 0x00, 0x00, 0x00, 0x00, 0x00, 0x00, 0x00, 0x00, 0x00, 0x00, 0x00, 0x00, 0x00,
      0x00, 0x00, 0x00, 0x00, 0x00, 0x00, 0x00, 0x00, 0x50, 0x02, 0x00, 0x00, 0x00, 0x00, 0x00, 0x00]]"
  by (simp add: md5_pad_def encode_def md5_blocks.simps le_bytes8_def replicate_numeral_unfold)

lemma block_all_week_1:
  "md5_block md5_init
     [0x68, 0x74, 0x74, 0x70, 0x73, 0x3a, 0x2f, 0x2f, 0x65, 0x61, 0x72, 0x74, 0x68, 0x71, 0x75, 0x61,
     0x6b, 0x65, 0x2e, 0x75, 0x73, 0x67, 0x73, 0x2e, 0x67, 0x6f, 0x76, 0x2f, 0x65, 0x61, 0x72, 0x74,
     0x68, 0x71, 0x75, 0x61, 0x6b, 0x65, 0x73, 0x2f, 0x66, 0x65, 0x65, 0x64, 0x2f, 0x76, 0x31, 0x2e,
     0x30, 0x2f, 0x73, 0x75, 0x6d, 0x6d, 0x61, 0x72, 0x79, 0x2f, 0x61, 0x6c, 0x6c, 0x5f, 0x77, 0x65] =
     (0x371e5bec, 0xec43e2e5, 0x18a494a9, 0x97f8215e)"
  by (simp add: md5_block_eval md5_init_def)

lemma block_all_week_2:
  "md5_block (0x371e5bec, 0xec43e2e5, 0x18a494a9, 0x97f8215e)
     [0x65, 0x6b, 0x2e, 0x67, 0x65, 0x6f, 0x6a, 0x73, 0x6f, 0x6e, 0x80, 0x00, 0x00, 0x00, 0x00, 0x00,
     0x00, 0x00, 0x00, 0x00, 0x00, 0x00, 0x00, 0x00, 0x00, 0x00, 0x00, 0x00, 0x00, 0x00, 0x00, 0x00,
     0x00, 0x00, 0x00, 0x00, 0x00, 0x00, 0x00, 0x00, 0x00, 0x00, 0x00, 0x00, 0x00, 0x00, 0x00, 0x00,
     0x00, 0x00, 0x00, 0x00, 0x00, 0x00, 0x00, 0x00, 0x50, 0x02, 0x00, 0x00, 0x00, 0x00, 0x00, 0x00] =
     (0xf8708c9d, 0x6bf19eff, 0x9eb113c4, 0x22d8fac9)"
  by (simp add: md5_block_eval)

lemma digest_all_week:
  "md5_hex ''https://earthquake.usgs.gov/earthquakes/feed/v1.0/summary/all_week.geojson'' =
     ''9d8c70f8ff9ef16bc413b19ec9fad822''"
  by (simp add: md5_hex_def md5_digest_def blocks_all_week block_all_week_1 block_all_week_2
        le_bytes4_def hexdigest_def hex_byte_def hex_digit_def)

lemma blocks_all_month:
  "md5_blocks (md5_pad (encode
     ''https://earthquake.usgs.gov/earthquakes/feed/v1.0/summary/all_month.geojson'')) =
     [[0x68, 0x74, 0x74, 0x70, 0x73, 0x3a, 0x2f, 0x2f, 0x65, 0x61, 0x72, 0x74, 0x68, 0x71, 0x75, 0x61,
      0x6b, 0x65, 0x2e, 0x75, 0x73, 0x67, 0x73, 0x2e, 0x67, 0x6f, 0x76, 0x2f, 0x65, 0x61, 0x72, 0x74,
      0x68, 0x71, 0x75, 0x61, 0x6b, 0x65, 0x73, 0x2f, 0x66, 0x65, 0x65, 0x64, 0x2f, 0x76, 0x31, 0x2e,
      0x30, 0x2f, 0x73, 0x75, 0x6d, 0x6d, 0x61, 0x72, 0x79, 0x2f, 0x61, 0x6c, 0x6c, 0x5f, 0x6d, 0x6f],
      [0x6e, 0x74, 0x68, 0x2e, 0x67, 0x65, 0x6f, 0x6a, 0x73, 0x6f, 0x6e, 0x80, 0x00, 0x00, 0x00, 0x00,
      0x00, 0x00, 0x00, 0x00, 0x00, 0x00, 0x00, 0x00, 0x00, 0x00, 0x00, 0x00, 0x00, 0x00, 0x00, 0x00,
      0x00, 0x00, 0x00, 0x00, 0x00, 0x00, 0x00, 0x00, 0x00, 0x00, 0x00, 0x00, 0x00, 0x00, 0x00, 0x00,
      0x00, 0x00, 0x00, 0x00, 0x00, 0x00, 0x00, 0x00, 0x58, 0x02, 0x00, 0x00, 0x00, 0x00, 0x00, 0x00]]"
  by (simp add: md5_pad_def encode_def md5_blocks.simps le_bytes8_def replicate_numeral_unfold)

lemma block_all_month_1:
  "md5_block md5_init
     [0x68, 0x74, 0x74, 0x70, 0x73, 0x3a, 0x2f, 0x2f, 0x65, 0x61, 0x72, 0x74, 0x68, 0x71, 0x75, 0x61,
     0x6b, 0x65, 0x2e, 0x75, 0x73, 0x67, 0x73, 0x2e, 0x67, 0x6f, 0x76, 0x2f, 0x65, 0x61, 0x72, 0x74,
     0x68, 0x71, 0x75, 0x61, 0x6b, 0x65, 0x73, 0x2f, 0x66, 0x65, 0x65, 0x64, 0x2f, 0x76, 0x31, 0x2e,
     0x30, 0x2f, 0x73, 0x75, 0x6d, 0x6d, 0x61, 0x72, 0x79, 0x2f, 0x61, 0x6c, 0x6c, 0x5f, 0x6d, 0x6f] =
     (0xa89fc93a, 0xd811aeeb, 0xd1afc12d, 0x2692df1a)"
  by (simp add: md5_block_eval md5_init_def)

lemma block_all_month_2:
  "md5_block (0xa89fc93a, 0xd811aeeb, 0xd1afc12d, 0x2692df1a)
     [0x6e, 0x74, 0x68, 0x2e, 0x67, 0x65, 0x6f, 0x6a, 0x73, 0x6f, 0x6e, 0x80, 0x00, 0x00, 0x00, 0x00,
     0x00, 0x00, 0x00, 0x00, 0x00, 0x00, 0x00, 0x00, 0x00, 0x00, 0x00, 0x00, 0x00, 0x00, 0x00, 0x00,
     0x00, 0x00, 0x00, 0x00, 0x00, 0x00, 0x00, 0x00, 0x00, 0x00, 0x00, 0x00, 0x00, 0x00, 0x00, 0x00,
     0x00, 0x00, 0x00, 0x00, 0x00, 0x00, 0x00, 0x00, 0x58, 0x02, 0x00, 0x00, 0x00, 0x00, 0x00, 0x00] =
     (0x37c0a583, 0xdaad6ffe, 0x6ab6f463, 0xc970b08f)"
  by (simp add: md5_block_eval)

lemma digest_all_month:
  "md5_hex ''https://earthquake.usgs.gov/earthquakes/feed/v1.0/summary/all_month.geojson'' =
     ''83a5c037fe6fadda63f4b66a8fb070c9''"
  by (simp add: md5_hex_def md5_digest_def blocks_all_month block_all_month_1 block_all_month_2
        le_bytes4_def hexdigest_def hex_byte_def hex_digit_def)

lemmas catalog_digests =
  digest_significant_hour digest_significant_day digest_significant_week digest_significant_month
  digest_m4_5_hour digest_m4_5_day digest_m4_5_week digest_m4_5_month
  digest_m2_5_hour digest_m2_5_day digest_m2_5_week digest_m2_5_month
  digest_m1_0_hour digest_m1_0_day digest_m1_0_week digest_m1_0_month
  digest_all_hour digest_all_day digest_all_week digest_all_month

section \<open>One cache file for each feed\<close>

lemma fetch_frame:
  assumes url: "map_of feed_urls ft = Some url"
    and q: "q \<noteq> CACHE_DIR" "q \<noteq> get_cache_filename url"
  shows "fs (snd (fetch_earthquake_data J n w ft)) q = fs w q"
proof -
  let ?p = "get_cache_filename url"
  have "fs (snd (fetch_earthquake_data J n w ft)) q = fs (ensure_cache_dir w) q"
  proof (cases "cache_hit J w ?p")
    case (Some d)
    from fetch_hit [OF url Some, where n = n] show ?thesis by (simp add: after_lookup_fs)
  next
    case None
    note miss = this
    show ?thesis
    proof (cases "http_get_json J n url")
      case (Inl msg)
      from fetch_miss_failure [OF url miss Inl] show ?thesis by (simp add: after_lookup_fs)
    next
      case (Inr d)
      show ?thesis
      proof (cases "writable (ensure_cache_dir w) ?p")
        case True
        from fetch_miss_written [OF url miss Inr True] q(2) show ?thesis by simp
      next
        case False
        from fetch_miss_raised [OF url miss Inr False] obtain e where
          "fetch_earthquake_data J n w ft =
             (Raised e, (after_lookup w ?p)\<lparr> clock := clock w + latency n,
                trace := trace (after_lookup w ?p) @ [HttpGet url, OpenWrite ?p] \<rparr>)"
          by blast
        then show ?thesis by (simp add: after_lookup_fs)
      qed
    qed
  qed
  with q(1) show ?thesis by (simp add: ensure_cache_dir_other)
qed

lemma catalog_hashes:
  "map (md5_hex \<circ> snd) feed_urls =
     [''c97fa42ce8ba17ff7aaf95e4e1a442dd'', ''f16f4194844233503b6d4d53e32714b6'',
      ''3294f4396eff23d3c9622976cd433d60'', ''703c7ced7cacd03aac9b98337af5cd1b'',
      ''7c8ecf41e80049e14b8b7b1e919c5369'', ''52fe29a3c3c3238d81807527e9f32e27'',
      ''d66f539bea15742ef8c3b7abf7e04894'', ''727cac435aff60889d3e5110ace90a3f'',
      ''c069e4a8e009578318a60e7319e9de35'', ''c4fcbae5af7d03d37e8804cbb445b802'',
      ''7cc3f170949aa71ae974b44d2a6b4110'', ''1428b117c3388a7794c79bc0a6d90198'',
      ''756bc4ed0fd4fb691b5ef3119a3bd474'', ''2abb6cdb0aa45f918ed1b2bd6f38e221'',
      ''b90e3a697bd8385f57ecb9283d0b6a85'', ''716445706254567e2c802c59c6ca4c0a'',
      ''2f374923c0895b83cbf20c5d3aa0bb81'', ''9e9def737e1c7807fa8f69ca791b153e'',
      ''9d8c70f8ff9ef16bc413b19ec9fad822'', ''83a5c037fe6fadda63f4b66a8fb070c9'']"
  unfolding feed_urls_def by (simp add: catalog_digests)

lemma catalog_hashes_distinct: "distinct (map (md5_hex \<circ> snd) feed_urls)"
  unfolding catalog_hashes by simp

lemma catalog_urls_distinct: "distinct (map snd feed_urls)"
proof -
  have "distinct (map md5_hex (map snd feed_urls))"
    using catalog_hashes_distinct by (simp only: map_map)
  with distinct_map [of md5_hex "map snd feed_urls"] show ?thesis by blast
qed

lemma catalog_files_distinct: "distinct (map (get_cache_filename \<circ> snd) feed_urls)"
proof -
  define f where "f = (\<lambda>h. ''cache/earthquake_data_'' @ h @ ''.json'')"
  have inj: "inj_on f A" for A :: "string set"
    by (rule inj_onI) (simp add: f_def)
  have eq: "get_cache_filename \<circ> snd = f \<circ> (md5_hex \<circ> snd)"
    by (rule ext) (simp add: f_def get_cache_filename_eq)
  have "distinct (map f (map (md5_hex \<circ> snd) feed_urls))"
    using distinct_map [of f "map (md5_hex \<circ> snd) feed_urls"] catalog_hashes_distinct
      inj [of "set (map (md5_hex \<circ> snd) feed_urls)"]
    by blast
  then show ?thesis
    unfolding eq by (simp only: map_map)
qed

text \<open>
  C9. The 20 URLs of the catalog are pairwise distinct, and so are the 20 cache paths
  \<^verbatim>\<open>get_cache_filename\<close> gives them: their MD5 digests differ. Two distinct feed
  identifiers therefore never share a cache file, and a call for one feed leaves the
  cache file of every other feed as it was.
\<close>

theorem catalog_cache_files_distinct:
  "distinct (map snd feed_urls)
   \<and> distinct (map (get_cache_filename \<circ> snd) feed_urls)
   \<and> (\<forall>a b ua ub. a \<noteq> b \<and> map_of feed_urls a = Some ua \<and> map_of feed_urls b = Some ub \<longrightarrow>
          ua \<noteq> ub
          \<and> get_cache_filename ua \<noteq> get_cache_filename ub
          \<and> (\<forall>(J :: 'j json_lib) n w.
                fs (snd (fetch_earthquake_data J n w a)) (get_cache_filename ub)
                  = fs w (get_cache_filename ub)))"
proof -
  have sep: "ua \<noteq> ub \<and> get_cache_filename ua \<noteq> get_cache_filename ub
          \<and> (\<forall>(J :: 'j json_lib) n w.
                fs (snd (fetch_earthquake_data J n w a)) (get_cache_filename ub)
                  = fs w (get_cache_filename ub))"
    if ab: "a \<noteq> b" and a: "map_of feed_urls a = Some ua" and b: "map_of feed_urls b = Some ub"
    for a b ua ub
  proof -
    from a b have mem: "(a, ua) \<in> set feed_urls" "(b, ub) \<in> set feed_urls"
      by (auto dest: map_of_SomeD)
    have inj: "inj_on (get_cache_filename \<circ> snd) (set feed_urls)"
      using catalog_files_distinct by (simp add: distinct_map)
    have files: "get_cache_filename ua \<noteq> get_cache_filename ub"
    proof
      assume "get_cache_filename ua = get_cache_filename ub"
      then have "(get_cache_filename \<circ> snd) (a, ua) = (get_cache_filename \<circ> snd) (b, ub)"
        by simp
      from inj_onD [OF inj this mem] have "(a, ua) = (b, ub)" .
      with ab show False by simp
    qed
    then have urls: "ua \<noteq> ub" by auto
    have "fs (snd (fetch_earthquake_data J n w a)) (get_cache_filename ub) = fs w (get_cache_filename ub)"
      for J :: "'j json_lib" and n w
      using fetch_frame [OF a cache_filename_not_dir [of ub] files [symmetric]] .
    with files urls show ?thesis by blast
  qed
  from catalog_urls_distinct catalog_files_distinct sep show ?thesis by blast
qed

theorem catalog_cache_files_distinct_witness:
  "map_of feed_urls ''all_day'' = Some all_day_url
   \<and> map_of feed_urls ''all_hour'' =
       Some ''https://earthquake.usgs.gov/earthquakes/feed/v1.0/summary/all_hour.geojson''
   \<and> get_cache_filename all_day_url \<noteq>
       get_cache_filename ''https://earthquake.usgs.gov/earthquakes/feed/v1.0/summary/all_hour.geojson''"
proof -
  have hour: "map_of feed_urls ''all_hour'' =
       Some ''https://earthquake.usgs.gov/earthquakes/feed/v1.0/summary/all_hour.geojson''"
    by (simp add: feed_urls_def)
  have ne: "''all_day'' \<noteq> ''all_hour''" by simp
  note sep = catalog_cache_files_distinct
    [where 'j = json, THEN conjunct2, THEN conjunct2, rule_format,
     OF conjI [OF ne conjI [OF all_day_lookup hour]]]
  from sep have "get_cache_filename all_day_url \<noteq>
       get_cache_filename ''https://earthquake.usgs.gov/earthquakes/feed/v1.0/summary/all_hour.geojson''"
    by (rule conjunct2 [THEN conjunct1])
  with all_day_lookup hour show ?thesis by (intro conjI)
qed

end
